theory Spec2Isabelle
  imports Main
begin

section \<open>JavaScript strings\<close>

text \<open>
  A JavaScript string is modelled as a \<^typ>\<open>string\<close>: a list of code units below 256.
  Case mapping is the one of the ASCII letters; every other character is its own
  upper and lower case. An absent value (\<open>undefined\<close>, \<open>null\<close>) of a string field is
  \<open>None\<close>; such a field is falsy when it is absent or the empty string.
\<close>

definition lower_letters :: string where
  "lower_letters = ''abcdefghijklmnopqrstuvwxyz''"

definition upper_letters :: string where
  "upper_letters = ''ABCDEFGHIJKLMNOPQRSTUVWXYZ''"

definition digits :: string where
  "digits = ''0123456789''"

definition toUpperChar :: "char \<Rightarrow> char" where
  "toUpperChar c = (case map_of (zip lower_letters upper_letters) c of Some u \<Rightarrow> u | None \<Rightarrow> c)"

definition toLowerChar :: "char \<Rightarrow> char" where
  "toLowerChar c = (case map_of (zip upper_letters lower_letters) c of Some l \<Rightarrow> l | None \<Rightarrow> c)"

definition toUpperCase :: "string \<Rightarrow> string" where
  "toUpperCase s = map toUpperChar s"

definition toLowerCase :: "string \<Rightarrow> string" where
  "toLowerCase s = map toLowerChar s"

text \<open>\<open>String.prototype.trim\<close>: tab, line feed, vertical tab, form feed, carriage
  return, space and no-break space are stripped from both ends.\<close>

definition is_space :: "char \<Rightarrow> bool" where
  "is_space c = (c \<in> set [CHR 0x09, CHR 0x0A, CHR 0x0B, CHR 0x0C, CHR 0x0D, CHR 0x20, CHR 0xA0])"

definition trim :: "string \<Rightarrow> string" where
  "trim s = rev (dropWhile is_space (rev (dropWhile is_space s)))"

text \<open>\<open>s.split(c)\<close> for a one-character separator: the empty string splits into one
  empty piece, and adjacent separators give empty pieces.\<close>

fun split :: "char \<Rightarrow> string \<Rightarrow> string list" where
  "split c [] = [[]]"
| "split c (x # xs) =
     (if x = c then [] # split c xs
      else (case split c xs of [] \<Rightarrow> [[x]] | w # ws \<Rightarrow> (x # w) # ws))"

fun join :: "string \<Rightarrow> string list \<Rightarrow> string" where
  "join sep [] = []"
| "join sep [w] = w"
| "join sep (w # v # ws) = w @ sep @ join sep (v # ws)"

fun startsWith :: "string \<Rightarrow> string \<Rightarrow> bool" where
  "startsWith s [] = True"
| "startsWith [] (y # ys) = False"
| "startsWith (x # xs) (y # ys) = (x = y \<and> startsWith xs ys)"

text \<open>\<open>s.includes(sub)\<close>: \<open>sub\<close> occurs in \<open>s\<close> as a contiguous piece.\<close>

fun str_includes :: "string \<Rightarrow> string \<Rightarrow> bool" where
  "str_includes [] sub = (sub = [])"
| "str_includes (x # xs) sub = (startsWith (x # xs) sub \<or> str_includes xs sub)"

definition truthy :: "string option \<Rightarrow> bool" where
  "truthy v = (case v of None \<Rightarrow> False | Some s \<Rightarrow> s \<noteq> [])"

text \<open>\<open>a || b\<close> on an optional string and a default.\<close>

definition js_or :: "string option \<Rightarrow> string \<Rightarrow> string" where
  "js_or v d = (case v of None \<Rightarrow> d | Some s \<Rightarrow> if s = [] then d else s)"

text \<open>\<open>[...new Set(xs)]\<close>: the first occurrence of every element, in order.\<close>

fun uniq :: "'a list \<Rightarrow> 'a list" where
  "uniq [] = []"
| "uniq (x # xs) = x # uniq (filter (\<lambda>y. y \<noteq> x) xs)"

text \<open>\<open>s.split(',').map(x => x.trim()).filter(Boolean)\<close>\<close>

definition csv :: "string \<Rightarrow> string list" where
  "csv s = filter (\<lambda>x. x \<noteq> []) (map trim (split CHR '','' s))"

text \<open>The decimal rendering of a number in a template string.\<close>

fun show_nat :: "nat \<Rightarrow> string" where
  "show_nat n = (if n < 10 then [digits ! n] else show_nat (n div 10) @ [digits ! (n mod 10)])"

definition quoted :: "string \<Rightarrow> string" where
  "quoted s = [CHR 0x22] @ s @ [CHR 0x22]"

section \<open>Title case of company names\<close>

definition commonAbbreviations :: "string list" where
  "commonAbbreviations =
     [''LLC'', ''LLP'', ''Inc'', ''Corp'', ''Ltd'', ''Co'', ''USA'', ''US'', ''UK'', ''AI'', ''IT'',
      ''IBM'', ''HP'', ''AWS'', ''GE'']"

definition commonLowercase :: "string list" where
  "commonLowercase =
     [''of'', ''the'', ''and'', ''a'', ''an'', ''in'', ''on'', ''at'', ''by'', ''for'', ''with'', ''to'']"

text \<open>The callback of \<open>map\<close> in \<open>formatTitleCase\<close>: one word and its index.\<close>

definition formatWord :: "nat \<Rightarrow> string \<Rightarrow> string" where
  "formatWord index word =
     (if toUpperCase word \<in> set commonAbbreviations then toUpperCase word
      else if index > 0 \<and> toLowerCase word \<in> set commonLowercase then toLowerCase word
      else toUpperCase (take 1 word) @ toLowerCase (drop 1 word))"

definition formatTitleCase :: "string \<Rightarrow> string" where
  "formatTitleCase text =
     (if text = [] then []
      else join '' '' (map (\<lambda>(index, word). formatWord index word)
                        (enumerate 0 (split CHR '' '' text))))"

section \<open>The stores\<close>

text \<open>
  ObjectIds are natural numbers, and the driver's generator is the counter \<open>nextId\<close>.
  The metadata store holds the Resume, Company and Keyword collections, the blob store
  (the GridFS bucket) holds the files. Every call into either store is entered into
  \<open>oplog\<close> when it is attempted, and fails with the error the environment's \<open>faults\<close>
  give for it, if any.
\<close>

type_synonym oid = nat

datatype code = NumCode nat | StrCode string

record err =
  e_name :: string
  e_code :: "code option"
  e_message :: string

text \<open>\<open>new Error(message)\<close>\<close>

definition Error :: "string \<Rightarrow> err" where
  "Error msg = \<lparr>e_name = ''Error'', e_code = None, e_message = msg\<rparr>"

record tag =
  tag_id :: oid
  tag_name :: string

record resume =
  r_id :: oid
  r_name :: string
  r_major :: string
  r_graduationYear :: string
  r_fileId :: "oid option"
  r_uploadedBy :: string
  r_companies :: "oid list"
  r_keywords :: "oid list"
  r_isActive :: bool
  r_createdAt :: nat
  r_updatedAt :: nat

record blob =
  b_filename :: string
  b_contentType :: string
  b_data :: string

datatype op =
    OpAbortTransaction
  | OpCommitTransaction
  | OpBlobWrite
  | OpBlobDelete oid
  | OpBlobRead oid
  | OpCompanyFindOne string
  | OpCompanyCreate string
  | OpCompanyFind
  | OpKeywordFindOne string
  | OpKeywordCreate string
  | OpKeywordFind
  | OpResumeCreate
  | OpResumeSave oid
  | OpResumeFindOne oid
  | OpResumeFindById oid
  | OpResumeFind

type_synonym faults = "op \<Rightarrow> err option"

record world =
  resume_docs :: "resume list"
  company_docs :: "tag list"
  keyword_docs :: "tag list"
  blobs :: "(oid \<times> blob) list"
  nextId :: oid
  oplog :: "op list"

definition attempt :: "faults \<Rightarrow> op \<Rightarrow> world \<Rightarrow> err option \<times> world" where
  "attempt f p w = (f p, w\<lparr>oplog := oplog w @ [p]\<rparr>)"

subsection \<open>Company and Keyword collections\<close>

definition Company_findOne :: "faults \<Rightarrow> string \<Rightarrow> world \<Rightarrow> (err + tag option) \<times> world" where
  "Company_findOne f n w =
     (case attempt f (OpCompanyFindOne n) w of
        (Some e, w1) \<Rightarrow> (Inl e, w1)
      | (None, w1) \<Rightarrow> (Inr (find (\<lambda>c. tag_name c = n) (company_docs w1)), w1))"

definition Company_create :: "faults \<Rightarrow> string \<Rightarrow> world \<Rightarrow> (err + tag) \<times> world" where
  "Company_create f n w =
     (case attempt f (OpCompanyCreate n) w of
        (Some e, w1) \<Rightarrow> (Inl e, w1)
      | (None, w1) \<Rightarrow>
          (let c = \<lparr>tag_id = nextId w1, tag_name = n\<rparr>
           in (Inr c, w1\<lparr>company_docs := company_docs w1 @ [c], nextId := Suc (nextId w1)\<rparr>)))"

definition Keyword_findOne :: "faults \<Rightarrow> string \<Rightarrow> world \<Rightarrow> (err + tag option) \<times> world" where
  "Keyword_findOne f n w =
     (case attempt f (OpKeywordFindOne n) w of
        (Some e, w1) \<Rightarrow> (Inl e, w1)
      | (None, w1) \<Rightarrow> (Inr (find (\<lambda>k. tag_name k = n) (keyword_docs w1)), w1))"

definition Keyword_create :: "faults \<Rightarrow> string \<Rightarrow> world \<Rightarrow> (err + tag) \<times> world" where
  "Keyword_create f n w =
     (case attempt f (OpKeywordCreate n) w of
        (Some e, w1) \<Rightarrow> (Inl e, w1)
      | (None, w1) \<Rightarrow>
          (let k = \<lparr>tag_id = nextId w1, tag_name = n\<rparr>
           in (Inr k, w1\<lparr>keyword_docs := keyword_docs w1 @ [k], nextId := Suc (nextId w1)\<rparr>)))"

text \<open>The loop of \<open>findOrCreateCompanies\<close>: \<open>acc\<close> is the array \<open>companies\<close> built so
  far. A rejected \<open>findOne\<close> or \<open>create\<close> ends the loop and the function with that error;
  the records created before it stay in the store.\<close>

fun companiesLoop :: "faults \<Rightarrow> string list \<Rightarrow> tag list \<Rightarrow> world \<Rightarrow> (err + tag list) \<times> world" where
  "companiesLoop f [] acc w = (Inr acc, w)"
| "companiesLoop f (name # rest) acc w =
     (case Company_findOne f (formatTitleCase (trim name)) w of
        (Inl e, w1) \<Rightarrow> (Inl e, w1)
      | (Inr (Some company), w1) \<Rightarrow> companiesLoop f rest (acc @ [company]) w1
      | (Inr None, w1) \<Rightarrow>
          (case Company_create f (formatTitleCase (trim name)) w1 of
             (Inl e, w2) \<Rightarrow> (Inl e, w2)
           | (Inr company, w2) \<Rightarrow> companiesLoop f rest (acc @ [company]) w2))"

definition findOrCreateCompanies :: "faults \<Rightarrow> string list \<Rightarrow> world \<Rightarrow> (err + tag list) \<times> world" where
  "findOrCreateCompanies f companyNames w =
     (if companyNames = [] then (Inr [], w) else companiesLoop f companyNames [] w)"

fun keywordsLoop :: "faults \<Rightarrow> string list \<Rightarrow> tag list \<Rightarrow> world \<Rightarrow> (err + tag list) \<times> world" where
  "keywordsLoop f [] acc w = (Inr acc, w)"
| "keywordsLoop f (name # rest) acc w =
     (case Keyword_findOne f (trim name) w of
        (Inl e, w1) \<Rightarrow> (Inl e, w1)
      | (Inr (Some keyword), w1) \<Rightarrow> keywordsLoop f rest (acc @ [keyword]) w1
      | (Inr None, w1) \<Rightarrow>
          (case Keyword_create f (trim name) w1 of
             (Inl e, w2) \<Rightarrow> (Inl e, w2)
           | (Inr keyword, w2) \<Rightarrow> keywordsLoop f rest (acc @ [keyword]) w2))"

definition findOrCreateKeywords :: "faults \<Rightarrow> string list \<Rightarrow> world \<Rightarrow> (err + tag list) \<times> world" where
  "findOrCreateKeywords f keywordNames w =
     (if keywordNames = [] then (Inr [], w) else keywordsLoop f keywordNames [] w)"

subsection \<open>The GridFS bucket\<close>

text \<open>The error of the driver for a file that is not in the bucket.\<close>

definition fileNotFound :: "oid \<Rightarrow> err" where
  "fileNotFound fileId =
     \<lparr>e_name = ''MongoRuntimeError'', e_code = Some (StrCode ''ENOENT''),
      e_message = ''FileNotFound: file '' @ show_nat fileId @ '' was not found''\<rparr>"

text \<open>\<open>uploadFile\<close>: the bytes are stored under a new file id, or the stream fails
  (also when the database is not connected).\<close>

definition uploadFile :: "faults \<Rightarrow> string \<Rightarrow> string \<Rightarrow> string \<Rightarrow> world \<Rightarrow> (err + oid) \<times> world" where
  "uploadFile f buffer filename contentType w =
     (case attempt f OpBlobWrite w of
        (Some e, w1) \<Rightarrow> (Inl e, w1)
      | (None, w1) \<Rightarrow>
          (Inr (nextId w1),
           w1\<lparr>blobs := blobs w1 @
                  [(nextId w1, \<lparr>b_filename = filename, b_contentType = contentType, b_data = buffer\<rparr>)],
               nextId := Suc (nextId w1)\<rparr>))"

text \<open>\<open>bucket.delete\<close> of the driver: the file is removed, or the delete fails with
  the error of the driver (the file is not in the bucket, or the store fails).\<close>

definition bucket_delete :: "faults \<Rightarrow> oid \<Rightarrow> world \<Rightarrow> err option \<times> world" where
  "bucket_delete f fileId w =
     (case attempt f (OpBlobDelete fileId) w of
        (Some e, w1) \<Rightarrow> (Some e, w1)
      | (None, w1) \<Rightarrow>
          (case map_of (blobs w1) fileId of
             None \<Rightarrow> (Some (fileNotFound fileId), w1)
           | Some b \<Rightarrow> (None, w1\<lparr>blobs := filter (\<lambda>(i, b). i \<noteq> fileId) (blobs w1)\<rparr>)))"

text \<open>\<open>deleteFile\<close>: a promise that is settled nowhere but in the callback handed to
  \<open>bucket.delete\<close>. A driver that calls the callback (\<open>callsBack\<close>) settles it: rejected
  with the error of the delete, resolved when there is none. A driver that returns a
  promise of its own and ignores the callback carries out the delete all the same, but
  the promise of \<open>deleteFile\<close> then stays pending for ever, which is the value \<open>None\<close>.\<close>

definition deleteFile :: "bool \<Rightarrow> faults \<Rightarrow> oid \<Rightarrow> world \<Rightarrow> err option option \<times> world" where
  "deleteFile callsBack f fileId w =
     (case bucket_delete f fileId w of
        (outcome, w1) \<Rightarrow> (if callsBack then Some outcome else None, w1))"

text \<open>What \<open>openDownloadStream\<close> delivers: the bytes of the file, or an error event. An
  error is taken to arrive before the first chunk.\<close>

definition download :: "faults \<Rightarrow> oid \<Rightarrow> world \<Rightarrow> (err + string) \<times> world" where
  "download f fileId w =
     (case attempt f (OpBlobRead fileId) w of
        (Some e, w1) \<Rightarrow> (Inl e, w1)
      | (None, w1) \<Rightarrow>
          (case map_of (blobs w1) fileId of
             None \<Rightarrow> (Inl (fileNotFound fileId), w1)
           | Some b \<Rightarrow> (Inr (b_data b), w1)))"

subsection \<open>Sessions and transactions\<close>

text \<open>
  A session carries the state of its transaction and the writes made under it, which
  reach the collection when the transaction commits. Aborting a transaction that was
  committed or aborted before is an error of the driver; \<open>startSession\<close> and
  \<open>endSession\<close> do not fail and leave no trace in the stores.
\<close>

datatype txn_state = InProgress | Committed | Aborted

datatype txn_write = Insert resume | Save resume

record session =
  txn :: txn_state
  pending :: "txn_write list"

definition startTransaction :: session where
  "startTransaction = \<lparr>txn = InProgress, pending = []\<rparr>"

definition inTransaction :: "session \<Rightarrow> bool" where
  "inTransaction s = (txn s = InProgress)"

definition txnError :: "string \<Rightarrow> err" where
  "txnError msg = \<lparr>e_name = ''MongoTransactionError'', e_code = None, e_message = msg\<rparr>"

definition abortTransaction :: "faults \<Rightarrow> session \<Rightarrow> world \<Rightarrow> err option \<times> session \<times> world" where
  "abortTransaction f s w =
     (case txn s of
        InProgress \<Rightarrow>
          (case attempt f OpAbortTransaction w of
             (Some e, w1) \<Rightarrow> (Some e, s, w1)
           | (None, w1) \<Rightarrow> (None, s\<lparr>txn := Aborted, pending := []\<rparr>, w1))
      | Committed \<Rightarrow>
          (Some (txnError ''Cannot call abortTransaction after calling commitTransaction''), s, w)
      | Aborted \<Rightarrow> (Some (txnError ''Cannot call abortTransaction twice''), s, w))"

fun apply_write :: "resume list \<Rightarrow> txn_write \<Rightarrow> resume list" where
  "apply_write rs (Insert r) = rs @ [r]"
| "apply_write rs (Save r) = map (\<lambda>x. if r_id x = r_id r then r else x) rs"

text \<open>A commit that fails leaves the collection as it was and the transaction no longer
  in progress.\<close>

definition commitTransaction :: "faults \<Rightarrow> session \<Rightarrow> world \<Rightarrow> err option \<times> session \<times> world" where
  "commitTransaction f s w =
     (case txn s of
        InProgress \<Rightarrow>
          (case attempt f OpCommitTransaction w of
             (Some e, w1) \<Rightarrow> (Some e, s\<lparr>txn := Committed, pending := []\<rparr>, w1)
           | (None, w1) \<Rightarrow>
               (None, s\<lparr>txn := Committed, pending := []\<rparr>,
                w1\<lparr>resume_docs := foldl apply_write (resume_docs w1) (pending s)\<rparr>))
      | Committed \<Rightarrow> (None, s, w)
      | Aborted \<Rightarrow>
          (Some (txnError ''Cannot call commitTransaction after calling abortTransaction''), s, w))"

subsection \<open>The Resume schema\<close>

text \<open>
  \<open>name\<close>, \<open>major\<close> and \<open>graduationYear\<close> are trimmed when they are set, and they,
  \<open>fileId\<close> and \<open>uploadedBy\<close> are required: saving a document with an empty one is a
  validation error.
\<close>

definition validationError :: err where
  "validationError =
     \<lparr>e_name = ''ValidationError'', e_code = None, e_message = ''Resume validation failed''\<rparr>"

definition schema_valid :: "resume \<Rightarrow> bool" where
  "schema_valid d =
     (r_name d \<noteq> [] \<and> r_major d \<noteq> [] \<and> r_graduationYear d \<noteq> [] \<and> r_fileId d \<noteq> None
      \<and> r_uploadedBy d \<noteq> [])"

text \<open>\<open>Resume.create([{...}], { session })\<close>: the document gets its id, the defaults
  of the schema and its timestamp, and is inserted under the session.\<close>

definition Resume_create ::
  "faults \<Rightarrow> nat \<Rightarrow> session \<Rightarrow> string \<Rightarrow> string \<Rightarrow> string \<Rightarrow> oid option \<Rightarrow> string \<Rightarrow> oid list
     \<Rightarrow> oid list \<Rightarrow> world \<Rightarrow> (err + resume) \<times> session \<times> world" where
  "Resume_create f time s name major graduationYear fileId uploadedBy companyIds keywordIds w =
     (let doc = \<lparr>r_id = nextId w, r_name = trim name, r_major = trim major,
                 r_graduationYear = trim graduationYear, r_fileId = fileId,
                 r_uploadedBy = uploadedBy, r_companies = companyIds, r_keywords = keywordIds,
                 r_isActive = True, r_createdAt = time, r_updatedAt = time\<rparr>;
          w0 = w\<lparr>nextId := Suc (nextId w)\<rparr>
      in if \<not> schema_valid doc then (Inl validationError, s, w0)
         else (case attempt f OpResumeCreate w0 of
                 (Some e, w1) \<Rightarrow> (Inl e, s, w1)
               | (None, w1) \<Rightarrow> (Inr doc, s\<lparr>pending := pending s @ [Insert doc]\<rparr>, w1)))"

section \<open>Requests, responses and the environment\<close>

record upfile =
  originalname :: "string option"
  buffer :: "string option"

record form =
  f_name :: "string option"
  f_major :: "string option"
  f_graduationYear :: "string option"
  f_companies :: "string option"
  f_keywords :: "string option"

record principal =
  user_id :: "string option"
  user_role :: string

record upload_request =
  u_file :: "upfile option"
  u_body :: form
  u_user :: principal

text \<open>What the content extractor returns.\<close>

record parsed =
  pd_name :: "string option"
  pd_major :: "string option"
  pd_graduationYear :: "string option"
  pd_companies :: "string list option"
  pd_keywords :: "string list option"

record upload_data =
  d_id :: oid
  d_name :: string
  d_major :: string
  d_graduationYear :: string
  d_parsingWarning :: "string option"
  d_companies :: "string list"
  d_keywords :: "string list"

record summary =
  s_id :: oid
  s_name :: string
  s_major :: string
  s_graduationYear :: string
  s_pdfUrl :: "string option"
  s_signedPdfUrl :: "string option"
  s_companies :: "string list"
  s_keywords :: "string list"

record detail =
  dt_id :: oid
  dt_name :: string
  dt_major :: string
  dt_graduationYear :: string
  dt_pdfUrl :: "string option"
  dt_companies :: "string list"
  dt_keywords :: "string list"
  dt_uploader :: "string option"
  dt_createdAt :: nat
  dt_updatedAt :: nat

record updated =
  up_id :: oid
  up_name :: string
  up_major :: string
  up_graduationYear :: string
  up_pdfUrl :: "string option"
  up_companies :: "string list"
  up_keywords :: "string list"

text \<open>The JSON bodies: \<open>Message error message\<close>, \<open>Failure message details\<close> (with
  \<open>error: true\<close>), and the bodies with data.\<close>

datatype body =
    Message bool string
  | Failure string string
  | Uploaded string upload_data
  | SearchResult nat "summary list"
  | DetailResult detail
  | UpdateResult string updated
  | PdfBytes string
  | NoBody

record response =
  status :: nat
  headers :: "(string \<times> string) list"
  payload :: body

definition json :: "nat \<Rightarrow> body \<Rightarrow> response" where
  "json st b = \<lparr>status = st, headers = [], payload = b\<rparr>"

text \<open>
  What the program takes from outside: \<open>parseId\<close> is \<open>ObjectId.isValid\<close> together with
  the cast of a route parameter to an ObjectId (\<open>None\<close> for a malformed id);
  \<open>regexp p\<close> is \<open>new RegExp(p, 'i')\<close> as its \<open>test\<close> function (\<open>None\<close> when the
  constructor throws); \<open>parseResume\<close> is the content extractor (\<open>Inl\<close> the message of
  the error it throws); \<open>now\<close> is the reading of the clock; \<open>faults\<close> are the store
  operations that fail; \<open>callbackDriver\<close> tells whether the GridFS driver that is
  installed calls a callback handed to \<open>bucket.delete\<close>, as the drivers with a callback
  interface do, or ignores it, as the drivers that only return promises do.
\<close>

record env =
  parseId :: "string \<Rightarrow> oid option"
  regexp :: "string \<Rightarrow> (string \<Rightarrow> bool) option"
  parseResume :: "string \<Rightarrow> string \<Rightarrow> string + parsed"
  now :: nat
  faults :: faults
  callbackDriver :: bool

section \<open>Upload\<close>

datatype step =
    Initialization
  | Validation
  | Resume_parsing
  | Data_processing
  | Gridfs_upload
  | Associate_companies
  | Associate_keywords
  | Database_create
  | Transaction_commit

text \<open>An exception on its way to the \<open>catch\<close> of \<open>uploadResume\<close>, with the variables
  the handler reads: \<open>currentStep\<close>, \<open>gridfsFileId\<close> and the session.\<close>

datatype thrown = Thrown step "oid option" session err

text \<open>\<open>name.replace(/\.[^/.]+$/, "")\<close>: the last dot and what follows it are removed
  when at least one character follows and none of them is a slash.\<close>

definition removeExtension :: "string \<Rightarrow> string" where
  "removeExtension s =
     (let ext = takeWhile (\<lambda>c. c \<noteq> CHR ''.'') (rev s)
      in if length ext < length s \<and> ext \<noteq> [] \<and> CHR ''/'' \<notin> set ext
         then take (length s - length ext - 1) s else s)"

text \<open>\<open>replace(/[^a-zA-Z0-9._-]/g, '_')\<close>\<close>

definition sanitize :: "string \<Rightarrow> string" where
  "sanitize s =
     map (\<lambda>c. if c \<in> set (lower_letters @ upper_letters @ digits @ ''._-'') then c else CHR ''_'') s"

definition filenameWithoutExt :: "nat \<Rightarrow> upfile \<Rightarrow> string" where
  "filenameWithoutExt time fl =
     (case originalname fl of
        None \<Rightarrow> ''Resume_'' @ show_nat time
      | Some n \<Rightarrow> if n = [] then ''Resume_'' @ show_nat time else removeExtension n)"

definition fallbackData :: "string \<Rightarrow> parsed" where
  "fallbackData stem =
     \<lparr>pd_name = Some stem, pd_major = Some ''Unspecified'',
      pd_graduationYear = Some ''Unspecified'', pd_companies = Some [], pd_keywords = Some []\<rparr>"

text \<open>The inner \<open>try\<close> around \<open>parseResume\<close>: the parsed data and \<open>parsingErrorMessage\<close>.\<close>

definition parseOrFallback :: "env \<Rightarrow> string \<Rightarrow> string \<Rightarrow> parsed \<times> string option" where
  "parseOrFallback env buf stem =
     (case parseResume env buf stem of
        Inl msg \<Rightarrow> (fallbackData stem, Some (if msg = [] then ''Unknown parsing error'' else msg))
      | Inr parsedData \<Rightarrow> (parsedData, None))"

definition truncate255 :: "string \<Rightarrow> string" where
  "truncate255 s = (if length s > 255 then take 252 s @ ''...'' else s)"

definition resolveName :: "nat \<Rightarrow> form \<Rightarrow> parsed \<Rightarrow> string \<Rightarrow> string" where
  "resolveName time frm parsedData stem =
     (let name = js_or (f_name frm)
                   (case pd_name parsedData of
                      None \<Rightarrow> stem
                    | Some n \<Rightarrow> if n \<noteq> [] \<and> trim n \<noteq> [] then n else stem);
          name = (if name = [] \<or> trim name = [] then ''Unknown_Resume_'' @ show_nat time else name)
      in truncate255 name)"

definition resolveMajor :: "form \<Rightarrow> parsed \<Rightarrow> string" where
  "resolveMajor frm parsedData =
     (let major = js_or (f_major frm) (js_or (pd_major parsedData) []);
          major = (if major = [] \<or> trim major = [] then ''Unspecified'' else major)
      in truncate255 major)"

definition resolveGraduationYear :: "form \<Rightarrow> parsed \<Rightarrow> string" where
  "resolveGraduationYear frm parsedData =
     (let graduationYear = js_or (f_graduationYear frm) (js_or (pd_graduationYear parsedData) []);
          graduationYear = (if graduationYear = [] \<or> trim graduationYear = []
                            then ''Unspecified'' else graduationYear)
      in if length graduationYear > 255 then ''Unspecified'' else graduationYear)"

text \<open>The company or keyword list: from the form field if it is given, else from the
  parsed data; cut to 100 entries, then made unique.\<close>

definition uniqueList :: "string option \<Rightarrow> string list option \<Rightarrow> string list" where
  "uniqueList field parsedList =
     (let fromParsed = (case parsedList of None \<Rightarrow> [] | Some l \<Rightarrow> l);
          l = (case field of None \<Rightarrow> fromParsed | Some c \<Rightarrow> if c = [] then fromParsed else csv c);
          l = (if length l > 100 then take 100 l else l)
      in uniq l)"

definition userMessage :: "string \<Rightarrow> step \<Rightarrow> err \<Rightarrow> string" where
  "userMessage originalFilename currentStep error =
     (if currentStep = Resume_parsing then
        ''Failed to parse resume content for '' @ quoted originalFilename
          @ ''. Please check if the PDF is valid and not password-protected.''
      else if currentStep = Database_create \<and> str_includes (e_message error) ''null'' then
        ''Failed to save resume '' @ quoted originalFilename
          @ '' due to missing required data. Check PDF content.''
      else if e_name error = ''MongoServerError'' \<and> e_code error = Some (NumCode 11000) then
        ''A resume similar to '' @ quoted originalFilename @ '' might already exist.''
      else if currentStep = Gridfs_upload \<or> str_includes (e_message error) ''storage'' then
        ''Error storing the file for resume '' @ quoted originalFilename @ ''. Please try again.''
      else ''An unexpected error occurred while processing '' @ quoted originalFilename @ '': ''
             @ e_message error)"

text \<open>The \<open>catch\<close> of \<open>uploadResume\<close>: the transaction is aborted if it is still in
  progress, the uploaded file is deleted if the failure came after the upload, and the
  response is 500. Errors of the abort and of the delete are logged and dropped. The
  handler awaits the promise of \<open>deleteFile\<close>: when that promise stays pending, what
  follows the \<open>await\<close> never runs and no response is sent (\<open>None\<close>).\<close>

definition upload_catch ::
  "env \<Rightarrow> string \<Rightarrow> step \<Rightarrow> oid option \<Rightarrow> session \<Rightarrow> err \<Rightarrow> world
     \<Rightarrow> response option \<times> world" where
  "upload_catch env originalFilename currentStep gridfsFileId s error w =
     (let w1 = (if inTransaction s then snd (snd (abortTransaction (faults env) s w)) else w);
          errorAfterGridFS =
            (currentStep \<in> set [Associate_companies, Associate_keywords, Database_create,
                                 Transaction_commit]);
          res = json 500 (Failure (userMessage originalFilename currentStep error)
                            (e_message error))
      in case gridfsFileId of
           None \<Rightarrow> (Some res, w1)
         | Some fileId \<Rightarrow>
             if errorAfterGridFS
             then (case deleteFile (callbackDriver env) (faults env) fileId w1 of
                     (None, w2) \<Rightarrow> (None, w2)
                   | (Some deleteError, w2) \<Rightarrow> (Some res, w2))
             else (Some res, w1))"

text \<open>A rejection of the validation step: abort, end the session, respond 400.\<close>

definition reject :: "faults \<Rightarrow> session \<Rightarrow> string \<Rightarrow> world \<Rightarrow> (thrown + response) \<times> world" where
  "reject f s msg w =
     (case abortTransaction f s w of
        (Some e, s1, w1) \<Rightarrow> (Inl (Thrown Validation None s1 e), w1)
      | (None, s1, w1) \<Rightarrow> (Inr (json 400 (Message True msg)), w1))"

text \<open>The two \<open>try\<close> blocks around tag resolution: a failure is logged and the id list
  stays empty; an empty name list is not resolved at all.\<close>

definition associate :: "(err + tag list) \<times> world \<Rightarrow> oid list \<times> world" where
  "associate r =
     (case r of (Inl e, w) \<Rightarrow> ([], w) | (Inr objects, w) \<Rightarrow> (map tag_id objects, w))"

definition associate_companies :: "faults \<Rightarrow> string list \<Rightarrow> world \<Rightarrow> oid list \<times> world" where
  "associate_companies f uniqueCompanyList w =
     (if uniqueCompanyList \<noteq> [] then associate (findOrCreateCompanies f uniqueCompanyList w)
      else ([], w))"

definition associate_keywords :: "faults \<Rightarrow> string list \<Rightarrow> world \<Rightarrow> oid list \<times> world" where
  "associate_keywords f uniqueKeywordList w =
     (if uniqueKeywordList \<noteq> [] then associate (findOrCreateKeywords f uniqueKeywordList w)
      else ([], w))"

text \<open>From the GridFS upload to the response.\<close>

definition upload_persist ::
  "env \<Rightarrow> upload_request \<Rightarrow> string \<Rightarrow> string \<Rightarrow> parsed \<Rightarrow> string option \<Rightarrow> string \<Rightarrow> session
     \<Rightarrow> world \<Rightarrow> (thrown + response) \<times> world" where
  "upload_persist env req buf originalFilename parsedData parsingErrorMessage stem s w =
     (let name = resolveName (now env) (u_body req) parsedData stem;
          major = resolveMajor (u_body req) parsedData;
          graduationYear = resolveGraduationYear (u_body req) parsedData;
          uniqueCompanyList = uniqueList (f_companies (u_body req)) (pd_companies parsedData);
          uniqueKeywordList = uniqueList (f_keywords (u_body req)) (pd_keywords parsedData)
      in case uploadFile (faults env) buf (sanitize originalFilename) ''application/pdf'' w of
           (Inl gridfsError, w1) \<Rightarrow>
             (case abortTransaction (faults env) s w1 of
                (Some e, s1, w2) \<Rightarrow> (Inl (Thrown Gridfs_upload None s1 e), w2)
              | (None, s1, w2) \<Rightarrow>
                  (Inl (Thrown Gridfs_upload None s1
                          (Error (''File storage failed: '' @ e_message gridfsError))), w2))
         | (Inr fileId, w1) \<Rightarrow>
             (let (companyIds, w2) = associate_companies (faults env) uniqueCompanyList w1;
                  (keywordIds, w3) = associate_keywords (faults env) uniqueKeywordList w2
              in case Resume_create (faults env) (now env) s name major graduationYear
                        (Some fileId) (js_or (user_id (u_user req)) ''admin'')
                        companyIds keywordIds w3 of
                   (Inl dbError, s1, w4) \<Rightarrow>
                     (case abortTransaction (faults env) s1 w4 of
                        (Some e, s2, w5) \<Rightarrow> (Inl (Thrown Database_create (Some fileId) s2 e), w5)
                      | (None, s2, w5) \<Rightarrow>
                          (Inl (Thrown Database_create (Some fileId) s2
                                  (Error (''Database create failed: '' @ e_message dbError))), w5))
                 | (Inr resume, s1, w4) \<Rightarrow>
                     (case commitTransaction (faults env) s1 w4 of
                        (Some e, s2, w5) \<Rightarrow>
                          (Inl (Thrown Transaction_commit (Some fileId) s2 e), w5)
                      | (None, s2, w5) \<Rightarrow>
                          (Inr (json 201
                                  (Uploaded (''Resume '' @ quoted originalFilename
                                               @ '' uploaded successfully.'')
                                     \<lparr>d_id = r_id resume, d_name = r_name resume,
                                      d_major = r_major resume,
                                      d_graduationYear = r_graduationYear resume,
                                      d_parsingWarning = parsingErrorMessage,
                                      d_companies = uniqueCompanyList,
                                      d_keywords = uniqueKeywordList\<rparr>)), w5))))"

text \<open>The \<open>try\<close> block of \<open>uploadResume\<close>: validation, extraction, then the rest.\<close>

definition upload_try ::
  "env \<Rightarrow> upload_request \<Rightarrow> string \<Rightarrow> session \<Rightarrow> world \<Rightarrow> (thrown + response) \<times> world" where
  "upload_try env req originalFilename s w =
     (case u_file req of
        None \<Rightarrow> reject (faults env) s ''No PDF file uploaded.'' w
      | Some fl \<Rightarrow>
          (case buffer fl of
             None \<Rightarrow> reject (faults env) s ''Empty file content.'' w
           | Some buf \<Rightarrow>
               if length buf = 0 then reject (faults env) s ''Empty file content.'' w
               else if length buf > 10 * 1024 * 1024
               then reject (faults env) s ''File too large. Maximum file size is 10MB.'' w
               else if take 4 buf \<noteq> ''%PDF''
               then reject (faults env) s ''Invalid PDF file format.'' w
               else (let stem = filenameWithoutExt (now env) fl;
                         (parsedData, parsingErrorMessage) = parseOrFallback env buf stem
                     in upload_persist env req buf originalFilename parsedData
                          parsingErrorMessage stem s w)))"

text \<open>\<open>uploadResume\<close>: the response that is sent, if one is, and the stores.\<close>

definition uploadResume :: "env \<Rightarrow> upload_request \<Rightarrow> world \<Rightarrow> response option \<times> world" where
  "uploadResume env req w =
     (let originalFilename =
            (case u_file req of
               None \<Rightarrow> ''Unnamed file''
             | Some fl \<Rightarrow> js_or (originalname fl) ''Unnamed file'')
      in case upload_try env req originalFilename startTransaction w of
           (Inr res, w1) \<Rightarrow> (Some res, w1)
         | (Inl (Thrown currentStep gridfsFileId s error), w1) \<Rightarrow>
             upload_catch env originalFilename currentStep gridfsFileId s error w1)"

section \<open>Search\<close>

record search_params =
  sp_query :: "string option"
  sp_name :: "string option"
  sp_major :: "string option"
  sp_company :: "string option"
  sp_graduationYear :: "string option"
  sp_keyword :: "string option"

text \<open>The query object handed to \<open>Resume.find\<close>: the fields it can carry, a field that
  is not set being \<open>None\<close>. A pattern stands for the regular expression built from it.\<close>

datatype cond = Regex string | Equals string | InRegex "string list" | InValues "string list"

datatype disjunct =
    OrName string
  | OrMajor string
  | OrGraduationYear string
  | OrCompanies "oid list"
  | OrKeywords "oid list"

record resumeQuery =
  rq_isActive :: bool
  rq_or :: "disjunct list option"
  rq_name :: "string option"
  rq_major :: "cond option"
  rq_graduationYear :: "cond option"
  rq_companies :: "oid list option"
  rq_keywords :: "oid list option"

definition invalidRegExp :: "string \<Rightarrow> err" where
  "invalidRegExp p =
     \<lparr>e_name = ''SyntaxError'', e_code = None,
      e_message = ''Invalid regular expression: /'' @ p @ ''/''\<rparr>"

definition test :: "env \<Rightarrow> string \<Rightarrow> string \<Rightarrow> bool" where
  "test env p v = (case regexp env p of None \<Rightarrow> False | Some t \<Rightarrow> t v)"

subsection \<open>How the store reads a query\<close>

fun cond_holds :: "env \<Rightarrow> cond \<Rightarrow> string \<Rightarrow> bool" where
  "cond_holds env (Regex p) v = test env p v"
| "cond_holds env (Equals x) v = (v = x)"
| "cond_holds env (InRegex ps) v = list_ex (\<lambda>p. test env p v) ps"
| "cond_holds env (InValues xs) v = (v \<in> set xs)"

text \<open>\<open>{ field: { $in: ids } }\<close> on an array field: some element is among the ids.\<close>

definition intersects :: "oid list \<Rightarrow> oid list \<Rightarrow> bool" where
  "intersects ids field = list_ex (\<lambda>i. i \<in> set ids) field"

fun disjunct_holds :: "env \<Rightarrow> disjunct \<Rightarrow> resume \<Rightarrow> bool" where
  "disjunct_holds env (OrName p) r = test env p (r_name r)"
| "disjunct_holds env (OrMajor p) r = test env p (r_major r)"
| "disjunct_holds env (OrGraduationYear p) r = test env p (r_graduationYear r)"
| "disjunct_holds env (OrCompanies ids) r = intersects ids (r_companies r)"
| "disjunct_holds env (OrKeywords ids) r = intersects ids (r_keywords r)"

definition matches :: "env \<Rightarrow> resumeQuery \<Rightarrow> resume \<Rightarrow> bool" where
  "matches env q r =
     (r_isActive r = rq_isActive q
      \<and> (case rq_or q of None \<Rightarrow> True | Some ds \<Rightarrow> list_ex (\<lambda>d. disjunct_holds env d r) ds)
      \<and> (case rq_name q of None \<Rightarrow> True | Some p \<Rightarrow> test env p (r_name r))
      \<and> (case rq_major q of None \<Rightarrow> True | Some c \<Rightarrow> cond_holds env c (r_major r))
      \<and> (case rq_graduationYear q of None \<Rightarrow> True
          | Some c \<Rightarrow> cond_holds env c (r_graduationYear r))
      \<and> (case rq_companies q of None \<Rightarrow> True | Some ids \<Rightarrow> intersects ids (r_companies r))
      \<and> (case rq_keywords q of None \<Rightarrow> True | Some ids \<Rightarrow> intersects ids (r_keywords r)))"

text \<open>\<open>Resume.find(q).sort({ createdAt: -1 })\<close>\<close>

definition Resume_find :: "faults \<Rightarrow> env \<Rightarrow> resumeQuery \<Rightarrow> world \<Rightarrow> (err + resume list) \<times> world" where
  "Resume_find f env q w =
     (case attempt f OpResumeFind w of
        (Some e, w1) \<Rightarrow> (Inl e, w1)
      | (None, w1) \<Rightarrow>
          (Inr (sort_key (\<lambda>r. - int (r_createdAt r)) (filter (matches env q) (resume_docs w1))),
           w1))"

text \<open>\<open>Company.find({ name: { $in: patterns } })\<close>, also for one pattern.\<close>

definition Company_find :: "faults \<Rightarrow> env \<Rightarrow> string list \<Rightarrow> world \<Rightarrow> (err + tag list) \<times> world" where
  "Company_find f env patterns w =
     (case attempt f OpCompanyFind w of
        (Some e, w1) \<Rightarrow> (Inl e, w1)
      | (None, w1) \<Rightarrow>
          (Inr (filter (\<lambda>c. list_ex (\<lambda>p. test env p (tag_name c)) patterns) (company_docs w1)),
           w1))"

definition Keyword_find :: "faults \<Rightarrow> env \<Rightarrow> string list \<Rightarrow> world \<Rightarrow> (err + tag list) \<times> world" where
  "Keyword_find f env patterns w =
     (case attempt f OpKeywordFind w of
        (Some e, w1) \<Rightarrow> (Inl e, w1)
      | (None, w1) \<Rightarrow>
          (Inr (filter (\<lambda>k. list_ex (\<lambda>p. test env p (tag_name k)) patterns) (keyword_docs w1)),
           w1))"

text \<open>\<open>populate\<close>: the documents of the ids that exist, in the order of the ids.\<close>

definition populate :: "oid list \<Rightarrow> tag list \<Rightarrow> tag list" where
  "populate ids docs = List.map_filter (\<lambda>i. find (\<lambda>t. tag_id t = i) docs) ids"

definition fileUrl :: "string \<Rightarrow> resume \<Rightarrow> string option" where
  "fileUrl baseUrl r =
     (case r_fileId r of
        None \<Rightarrow> None
      | Some fileId \<Rightarrow> Some (baseUrl @ ''/api/resumes/'' @ show_nat (r_id r) @ ''/file''))"

subsection \<open>How \<open>searchResumes\<close> builds the query\<close>

definition queryDisjuncts :: "env \<Rightarrow> string option \<Rightarrow> err + disjunct list option" where
  "queryDisjuncts env query =
     (case query of
        None \<Rightarrow> Inr None
      | Some q \<Rightarrow>
          if q = [] then Inr None
          else if regexp env q = None then Inl (invalidRegExp q)
          else Inr (Some [OrName q, OrMajor q, OrGraduationYear q]))"

definition nameCond :: "env \<Rightarrow> string option \<Rightarrow> err + string option" where
  "nameCond env name =
     (case name of
        None \<Rightarrow> Inr None
      | Some n \<Rightarrow>
          if n = [] then Inr None
          else if regexp env n = None then Inl (invalidRegExp n)
          else Inr (Some n))"

definition majorCond :: "env \<Rightarrow> string option \<Rightarrow> err + cond option" where
  "majorCond env major =
     (case major of
        None \<Rightarrow> Inr None
      | Some m \<Rightarrow>
          if m = [] then Inr None
          else (let majorList = csv m
                in case find (\<lambda>p. regexp env p = None) majorList of
                     Some bad \<Rightarrow> Inl (invalidRegExp bad)
                   | None \<Rightarrow>
                       (case majorList of
                          [p] \<Rightarrow> Inr (Some (Regex p))
                        | _ \<Rightarrow> Inr (Some (InRegex majorList)))))"

definition yearCond :: "string option \<Rightarrow> cond option" where
  "yearCond graduationYear =
     (case graduationYear of
        None \<Rightarrow> None
      | Some y \<Rightarrow>
          if y = [] then None
          else (case csv y of [x] \<Rightarrow> Some (Equals x) | yearList \<Rightarrow> Some (InValues yearList)))"

definition baseQuery :: "env \<Rightarrow> search_params \<Rightarrow> err + resumeQuery" where
  "baseQuery env ps =
     (case queryDisjuncts env (sp_query ps) of
        Inl e \<Rightarrow> Inl e
      | Inr ors \<Rightarrow>
          (case nameCond env (sp_name ps) of
             Inl e \<Rightarrow> Inl e
           | Inr nm \<Rightarrow>
               (case majorCond env (sp_major ps) of
                  Inl e \<Rightarrow> Inl e
                | Inr mj \<Rightarrow>
                    Inr \<lparr>rq_isActive = True, rq_or = ors, rq_name = nm, rq_major = mj,
                         rq_graduationYear = yearCond (sp_graduationYear ps),
                         rq_companies = None, rq_keywords = None\<rparr>)))"

text \<open>The company and keyword filters: the lookup throws, or finds nothing (the search
  answers with an empty result at once), or gives the ids to filter on (\<open>None\<close> when the
  parameter is not given).\<close>

datatype tag_filter = Throws err | NoMatch | Ids "oid list option"

definition companyFilter :: "env \<Rightarrow> string option \<Rightarrow> world \<Rightarrow> tag_filter \<times> world" where
  "companyFilter env company w =
     (case company of
        None \<Rightarrow> (Ids None, w)
      | Some c \<Rightarrow>
          if c = [] then (Ids None, w)
          else (let companyList = csv c
                in case find (\<lambda>p. regexp env p = None) companyList of
                     Some bad \<Rightarrow> (Throws (invalidRegExp bad), w)
                   | None \<Rightarrow>
                       (case Company_find (faults env) env companyList w of
                          (Inl e, w1) \<Rightarrow> (Throws e, w1)
                        | (Inr cs, w1) \<Rightarrow>
                            if cs \<noteq> [] then (Ids (Some (map tag_id cs)), w1)
                            else (NoMatch, w1))))"

definition keywordFilter :: "env \<Rightarrow> string option \<Rightarrow> world \<Rightarrow> tag_filter \<times> world" where
  "keywordFilter env keyword w =
     (case keyword of
        None \<Rightarrow> (Ids None, w)
      | Some k \<Rightarrow>
          if k = [] then (Ids None, w)
          else (let keywordList = csv k
                in case find (\<lambda>p. regexp env p = None) keywordList of
                     Some bad \<Rightarrow> (Throws (invalidRegExp bad), w)
                   | None \<Rightarrow>
                       (case Keyword_find (faults env) env keywordList w of
                          (Inl e, w1) \<Rightarrow> (Throws e, w1)
                        | (Inr ks, w1) \<Rightarrow>
                            if ks \<noteq> [] then (Ids (Some (map tag_id ks)), w1)
                            else (NoMatch, w1))))"

text \<open>The widening of the general query when it contains \<open>company\<close> or \<open>keyword\<close>.\<close>

definition widen :: "env \<Rightarrow> string option \<Rightarrow> resumeQuery \<Rightarrow> world \<Rightarrow> (err + resumeQuery) \<times> world" where
  "widen env query rq w =
     (case query of
        None \<Rightarrow> (Inr rq, w)
      | Some q \<Rightarrow>
          if q \<noteq> [] \<and> (str_includes q ''company'' \<or> str_includes q ''keyword'') then
            (case Company_find (faults env) env [q] w of
               (Inl e, w1) \<Rightarrow> (Inl e, w1)
             | (Inr matchingCompanies, w1) \<Rightarrow>
                 (case Keyword_find (faults env) env [q] w1 of
                    (Inl e, w2) \<Rightarrow> (Inl e, w2)
                  | (Inr matchingKeywords, w2) \<Rightarrow>
                      (let orConditions = (case rq_or rq of None \<Rightarrow> [] | Some ds \<Rightarrow> ds);
                           rq1 = (if matchingCompanies \<noteq> []
                                  then rq\<lparr>rq_or := Some (orConditions
                                            @ [OrCompanies (map tag_id matchingCompanies)])\<rparr>
                                  else rq);
                           rq2 = (if matchingKeywords \<noteq> []
                                  then rq1\<lparr>rq_or := Some
                                           ((case rq_or rq1 of None \<Rightarrow> orConditions | Some ds \<Rightarrow> ds)
                                            @ [OrKeywords (map tag_id matchingKeywords)])\<rparr>
                                  else rq1)
                       in (Inr rq2, w2))))
          else (Inr rq, w))"

definition formatSummary :: "string \<Rightarrow> world \<Rightarrow> resume \<Rightarrow> summary" where
  "formatSummary baseUrl w r =
     \<lparr>s_id = r_id r, s_name = r_name r, s_major = r_major r,
      s_graduationYear = r_graduationYear r, s_pdfUrl = fileUrl baseUrl r,
      s_signedPdfUrl = fileUrl baseUrl r,
      s_companies = map tag_name (populate (r_companies r) (company_docs w)),
      s_keywords = map tag_name (populate (r_keywords r) (keyword_docs w))\<rparr>"

definition emptyResult :: response where
  "emptyResult = json 200 (SearchResult 0 [])"

definition search_try :: "env \<Rightarrow> string \<Rightarrow> search_params \<Rightarrow> world \<Rightarrow> (err + response) \<times> world" where
  "search_try env baseUrl ps w =
     (case baseQuery env ps of
        Inl e \<Rightarrow> (Inl e, w)
      | Inr q0 \<Rightarrow>
          (case companyFilter env (sp_company ps) w of
             (Throws e, w1) \<Rightarrow> (Inl e, w1)
           | (NoMatch, w1) \<Rightarrow> (Inr emptyResult, w1)
           | (Ids cf, w1) \<Rightarrow>
               (case keywordFilter env (sp_keyword ps) w1 of
                  (Throws e, w2) \<Rightarrow> (Inl e, w2)
                | (NoMatch, w2) \<Rightarrow> (Inr emptyResult, w2)
                | (Ids kf, w2) \<Rightarrow>
                    (case widen env (sp_query ps) (q0\<lparr>rq_companies := cf, rq_keywords := kf\<rparr>) w2 of
                       (Inl e, w3) \<Rightarrow> (Inl e, w3)
                     | (Inr q, w3) \<Rightarrow>
                         (case Resume_find (faults env) env q w3 of
                            (Inl e, w4) \<Rightarrow> (Inl e, w4)
                          | (Inr rs, w4) \<Rightarrow>
                              (Inr (json 200 (SearchResult (length rs)
                                                (map (formatSummary baseUrl w4) rs))), w4))))))"

definition searchResumes :: "env \<Rightarrow> string \<Rightarrow> search_params \<Rightarrow> world \<Rightarrow> response \<times> world" where
  "searchResumes env baseUrl ps w =
     (case search_try env baseUrl ps w of
        (Inr res, w1) \<Rightarrow> (res, w1)
      | (Inl error, w1) \<Rightarrow> (json 500 (Message True ''Error searching resumes.''), w1))"

section \<open>Retrieval\<close>

text \<open>\<open>Resume.findOne({ _id: id, isActive: true })\<close>\<close>

definition Resume_findOne :: "faults \<Rightarrow> oid \<Rightarrow> world \<Rightarrow> (err + resume option) \<times> world" where
  "Resume_findOne f i w =
     (case attempt f (OpResumeFindOne i) w of
        (Some e, w1) \<Rightarrow> (Inl e, w1)
      | (None, w1) \<Rightarrow> (Inr (find (\<lambda>r. r_id r = i \<and> r_isActive r) (resume_docs w1)), w1))"

text \<open>\<open>streamFileToResponse\<close>: what the promise settles to, the response as it has been
  sent, and the store. A missing file ends the response with 404 and resolves to
  \<open>false\<close>; another error ends it with 500 and rejects.\<close>

definition streamFileToResponse ::
  "faults \<Rightarrow> oid \<Rightarrow> (string \<times> string) list \<Rightarrow> world \<Rightarrow> (err + bool) \<times> response \<times> world" where
  "streamFileToResponse f fileId hdrs w =
     (case download f fileId w of
        (Inr bytes, w1) \<Rightarrow> (Inr True, \<lparr>status = 200, headers = hdrs, payload = PdfBytes bytes\<rparr>, w1)
      | (Inl e, w1) \<Rightarrow>
          if e_code e = Some (StrCode ''ENOENT'') \<or> str_includes (e_message e) ''File not found''
          then (Inr False, \<lparr>status = 404, headers = hdrs, payload = NoBody\<rparr>, w1)
          else (Inl e, \<lparr>status = 500, headers = hdrs, payload = NoBody\<rparr>, w1))"

definition getResumeFile :: "env \<Rightarrow> string \<Rightarrow> world \<Rightarrow> response \<times> world" where
  "getResumeFile env idParam w =
     (case parseId env idParam of
        None \<Rightarrow> (json 400 (Message True ''Invalid resume ID.''), w)
      | Some i \<Rightarrow>
          (case Resume_findOne (faults env) i w of
             (Inl error, w1) \<Rightarrow> (json 500 (Message True ''Error retrieving file.''), w1)
           | (Inr None, w1) \<Rightarrow> (json 404 (Message True ''Resume or file not found.''), w1)
           | (Inr (Some resume), w1) \<Rightarrow>
               (case r_fileId resume of
                  None \<Rightarrow> (json 404 (Message True ''Resume or file not found.''), w1)
                | Some fileId \<Rightarrow>
                    (case streamFileToResponse (faults env) fileId
                            [(''Content-Type'', ''application/pdf''),
                             (''Content-Disposition'',
                              ''inline; filename='' @
                                quoted (sanitize (if r_name resume = [] then ''resume''
                                                  else r_name resume) @ ''.pdf''))] w1 of
                       (settled, sent, w2) \<Rightarrow> (sent, w2)))))"

definition getResumeById :: "env \<Rightarrow> string \<Rightarrow> string \<Rightarrow> world \<Rightarrow> response \<times> world" where
  "getResumeById env baseUrl idParam w =
     (case parseId env idParam of
        None \<Rightarrow> (json 400 (Message True ''Invalid resume ID.''), w)
      | Some i \<Rightarrow>
          (case Resume_findOne (faults env) i w of
             (Inl error, w1) \<Rightarrow> (json 500 (Message True ''Error retrieving resume.''), w1)
           | (Inr None, w1) \<Rightarrow> (json 404 (Message True ''Resume not found.''), w1)
           | (Inr (Some resume), w1) \<Rightarrow>
               (json 200 (DetailResult
                  \<lparr>dt_id = r_id resume, dt_name = r_name resume, dt_major = r_major resume,
                   dt_graduationYear = r_graduationYear resume, dt_pdfUrl = fileUrl baseUrl resume,
                   dt_companies = map tag_name (populate (r_companies resume) (company_docs w1)),
                   dt_keywords = map tag_name (populate (r_keywords resume) (keyword_docs w1)),
                   dt_uploader = (if r_uploadedBy resume = [] then None
                                  else Some (r_uploadedBy resume)),
                   dt_createdAt = r_createdAt resume, dt_updatedAt = r_updatedAt resume\<rparr>), w1)))"

section \<open>Update\<close>

record update_request =
  ur_id :: string
  ur_body :: form
  ur_user :: principal

text \<open>The permission check of \<open>updateResume\<close>: neither an admin nor the uploader.\<close>

definition denied :: "principal \<Rightarrow> resume \<Rightarrow> bool" where
  "denied user resume =
     (user_role user \<noteq> ''admin'' \<and> Some (r_uploadedBy resume) \<noteq> user_id user)"

text \<open>An early return of \<open>updateResume\<close>: abort, end the session, respond.\<close>

definition update_respond ::
  "faults \<Rightarrow> session \<Rightarrow> nat \<Rightarrow> string \<Rightarrow> world \<Rightarrow> (err + response) \<times> session \<times> world" where
  "update_respond f s st msg w =
     (case abortTransaction f s w of
        (Some e, s1, w1) \<Rightarrow> (Inl e, s1, w1)
      | (None, s1, w1) \<Rightarrow> (Inr (json st (Message True msg)), s1, w1))"

text \<open>\<open>if (v) resume.field = v\<close>, through the schema's trim.\<close>

definition setField :: "string option \<Rightarrow> string \<Rightarrow> string" where
  "setField v old = (case v of None \<Rightarrow> old | Some n \<Rightarrow> if n = [] then old else trim n)"

text \<open>\<open>if (companies) { ... resume.companies = companyObjects.map(c => c._id) }\<close>: the
  new id list, \<open>None\<close> when the field is not given. The list is resolved as it is
  given.\<close>

definition reassign ::
  "(faults \<Rightarrow> string list \<Rightarrow> world \<Rightarrow> (err + tag list) \<times> world) \<Rightarrow> faults \<Rightarrow> string option
     \<Rightarrow> world \<Rightarrow> (err + oid list option) \<times> world" where
  "reassign resolver f field w =
     (case field of
        None \<Rightarrow> (Inr None, w)
      | Some c \<Rightarrow>
          if c = [] then (Inr None, w)
          else (case resolver f (csv c) w of
                  (Inl e, w1) \<Rightarrow> (Inl e, w1)
                | (Inr objects, w1) \<Rightarrow> (Inr (Some (map tag_id objects)), w1)))"

text \<open>\<open>resume.save({ session })\<close>\<close>

definition Resume_save ::
  "faults \<Rightarrow> nat \<Rightarrow> session \<Rightarrow> resume \<Rightarrow> world \<Rightarrow> err option \<times> session \<times> world" where
  "Resume_save f time s doc w =
     (if \<not> schema_valid doc then (Some validationError, s, w)
      else (case attempt f (OpResumeSave (r_id doc)) w of
              (Some e, w1) \<Rightarrow> (Some e, s, w1)
            | (None, w1) \<Rightarrow>
                (None, s\<lparr>pending := pending s @ [Save (doc\<lparr>r_updatedAt := time\<rparr>)]\<rparr>, w1)))"

text \<open>\<open>Resume.findById(id)\<close>\<close>

definition Resume_findById :: "faults \<Rightarrow> oid \<Rightarrow> world \<Rightarrow> (err + resume option) \<times> world" where
  "Resume_findById f i w =
     (case attempt f (OpResumeFindById i) w of
        (Some e, w1) \<Rightarrow> (Inl e, w1)
      | (None, w1) \<Rightarrow> (Inr (find (\<lambda>r. r_id r = i) (resume_docs w1)), w1))"

definition typeError :: "string \<Rightarrow> err" where
  "typeError msg = \<lparr>e_name = ''TypeError'', e_code = None, e_message = msg\<rparr>"

text \<open>After the permission check: set the fields, resolve the tags, save, commit,
  reload and respond.\<close>

definition update_apply ::
  "env \<Rightarrow> string \<Rightarrow> form \<Rightarrow> resume \<Rightarrow> session \<Rightarrow> world \<Rightarrow> (err + response) \<times> session \<times> world" where
  "update_apply env baseUrl frm resume s w =
     (let r1 = resume\<lparr>r_name := setField (f_name frm) (r_name resume),
                       r_major := setField (f_major frm) (r_major resume),
                       r_graduationYear := setField (f_graduationYear frm) (r_graduationYear resume)\<rparr>
      in case reassign findOrCreateCompanies (faults env) (f_companies frm) w of
           (Inl e, w1) \<Rightarrow> (Inl e, s, w1)
         | (Inr companyIds, w1) \<Rightarrow>
             (case reassign findOrCreateKeywords (faults env) (f_keywords frm) w1 of
                (Inl e, w2) \<Rightarrow> (Inl e, s, w2)
              | (Inr keywordIds, w2) \<Rightarrow>
                  (let r2 = r1\<lparr>r_companies := (case companyIds of None \<Rightarrow> r_companies r1
                                                   | Some ids \<Rightarrow> ids),
                               r_keywords := (case keywordIds of None \<Rightarrow> r_keywords r1
                                                  | Some ids \<Rightarrow> ids)\<rparr>
                   in case Resume_save (faults env) (now env) s r2 w2 of
                        (Some e, s1, w3) \<Rightarrow> (Inl e, s1, w3)
                      | (None, s1, w3) \<Rightarrow>
                          (case commitTransaction (faults env) s1 w3 of
                             (Some e, s2, w4) \<Rightarrow> (Inl e, s2, w4)
                           | (None, s2, w4) \<Rightarrow>
                               (case Resume_findById (faults env) (r_id r2) w4 of
                                  (Inl e, w5) \<Rightarrow> (Inl e, s2, w5)
                                | (Inr None, w5) \<Rightarrow>
                                    (Inl (typeError ''Cannot read properties of null''), s2, w5)
                                | (Inr (Some updatedResume), w5) \<Rightarrow>
                                    (Inr (json 200
                                       (UpdateResult ''Resume updated successfully.''
                                          \<lparr>up_id = r_id updatedResume,
                                           up_name = r_name updatedResume,
                                           up_major = r_major updatedResume,
                                           up_graduationYear = r_graduationYear updatedResume,
                                           up_pdfUrl = fileUrl baseUrl updatedResume,
                                           up_companies = map tag_name
                                             (populate (r_companies updatedResume) (company_docs w5)),
                                           up_keywords = map tag_name
                                             (populate (r_keywords updatedResume) (keyword_docs w5))\<rparr>)),
                                     s2, w5))))))"

definition update_try ::
  "env \<Rightarrow> string \<Rightarrow> update_request \<Rightarrow> session \<Rightarrow> world \<Rightarrow> (err + response) \<times> session \<times> world" where
  "update_try env baseUrl req s w =
     (case parseId env (ur_id req) of
        None \<Rightarrow> update_respond (faults env) s 400 ''Invalid resume ID.'' w
      | Some i \<Rightarrow>
          (case Resume_findOne (faults env) i w of
             (Inl e, w1) \<Rightarrow> (Inl e, s, w1)
           | (Inr None, w1) \<Rightarrow> update_respond (faults env) s 404 ''Resume not found.'' w1
           | (Inr (Some resume), w1) \<Rightarrow>
               if denied (ur_user req) resume
               then update_respond (faults env) s 403 ''Permission denied.'' w1
               else update_apply env baseUrl (ur_body req) resume s w1))"

text \<open>\<open>updateResume\<close>. Its \<open>catch\<close> aborts the transaction outside any \<open>try\<close>: when
  that abort throws, the handler ends without a response (\<open>None\<close>).\<close>

definition updateResume :: "env \<Rightarrow> string \<Rightarrow> update_request \<Rightarrow> world \<Rightarrow> response option \<times> world" where
  "updateResume env baseUrl req w =
     (case update_try env baseUrl req startTransaction w of
        (Inr res, s, w1) \<Rightarrow> (Some res, w1)
      | (Inl error, s, w1) \<Rightarrow>
          (case abortTransaction (faults env) s w1 of
             (Some e, s1, w2) \<Rightarrow> (None, w2)
           | (None, s1, w2) \<Rightarrow> (Some (json 500 (Message True ''Error updating resume.'')), w2)))"

section \<open>Auxiliary notions for the properties\<close>

text \<open>The resolver called on one list of names after the other, as successive
  ingestions do.\<close>

definition resolveInTurn :: "faults \<Rightarrow> string list list \<Rightarrow> world \<Rightarrow> world" where
  "resolveInTurn f nss w = foldl (\<lambda>w1 names. snd (findOrCreateCompanies f names w1)) w nss"

definition companiesNamed :: "string \<Rightarrow> world \<Rightarrow> tag list" where
  "companiesNamed c w = filter (\<lambda>t. tag_name t = c) (company_docs w)"

text \<open>The operations on the blob store among the entries of a log.\<close>

fun isBlobOp :: "op \<Rightarrow> bool" where
  "isBlobOp OpBlobWrite = True"
| "isBlobOp (OpBlobDelete i) = True"
| "isBlobOp (OpBlobRead i) = True"
| "isBlobOp p = False"

definition blobOps :: "world \<Rightarrow> op list" where
  "blobOps w = filter isBlobOp (oplog w)"

text \<open>A file that the validation step of \<open>uploadResume\<close> turns down: it is absent,
  empty, larger than 10 MiB, or does not begin with \<open>%PDF\<close>; and a file \<open>fl\<close> with
  bytes \<open>b\<close> that it lets through.\<close>

definition rejectedFile :: "upfile option \<Rightarrow> bool" where
  "rejectedFile file =
     (case file of
        None \<Rightarrow> True
      | Some fl \<Rightarrow>
          (case buffer fl of
             None \<Rightarrow> True
           | Some b \<Rightarrow> b = [] \<or> length b > 10 * 1024 * 1024 \<or> take 4 b \<noteq> ''%PDF''))"

definition acceptedFile :: "upfile \<Rightarrow> string \<Rightarrow> bool" where
  "acceptedFile fl b =
     (buffer fl = Some b \<and> b \<noteq> [] \<and> length b \<le> 10 * 1024 * 1024 \<and> take 4 b = ''%PDF'')"

text \<open>The stores hold the same blobs and the same records.\<close>

definition sameStores :: "world \<Rightarrow> world \<Rightarrow> bool" where
  "sameStores w w' =
     (blobs w' = blobs w \<and> resume_docs w' = resume_docs w \<and> company_docs w' = company_docs w
      \<and> keyword_docs w' = keyword_docs w)"

definition emptyWorld :: world where
  "emptyWorld =
     \<lparr>resume_docs = [], company_docs = [], keyword_docs = [], blobs = [], nextId = 0, oplog = []\<rparr>"

definition noFaults :: faults where
  "noFaults p = None"

text \<open>
  The world right after the blob write of an upload of the bytes \<open>b\<close> under the
  file name \<open>fn\<close>, and the same through \<open>uploadFile\<close> for the file of a request.
\<close>

definition stored :: "string \<Rightarrow> string \<Rightarrow> world \<Rightarrow> world" where
  "stored fn b w =
     w\<lparr>oplog := oplog w @ [OpBlobWrite],
       blobs := blobs w @ [(nextId w, \<lparr>b_filename = sanitize fn, b_contentType = ''application/pdf'',
                                      b_data = b\<rparr>)],
       nextId := Suc (nextId w)\<rparr>"

definition afterUpload :: "env \<Rightarrow> upfile \<Rightarrow> string \<Rightarrow> world \<Rightarrow> world" where
  "afterUpload env fl b w =
     snd (uploadFile (faults env) b (sanitize (js_or (originalname fl) ''Unnamed file''))
            ''application/pdf'' w)"

text \<open>
  What the extractor step yields for a file, and the deduplicated name lists that the
  upload resolves.
\<close>

definition parsedOf :: "env \<Rightarrow> upfile \<Rightarrow> string \<Rightarrow> parsed" where
  "parsedOf env fl b = fst (parseOrFallback env b (filenameWithoutExt (now env) fl))"

definition companyNames :: "env \<Rightarrow> upload_request \<Rightarrow> upfile \<Rightarrow> string \<Rightarrow> string list" where
  "companyNames env req fl b =
     uniqueList (f_companies (u_body req)) (pd_companies (parsedOf env fl b))"

definition keywordNames :: "env \<Rightarrow> upload_request \<Rightarrow> upfile \<Rightarrow> string \<Rightarrow> string list" where
  "keywordNames env req fl b =
     uniqueList (f_keywords (u_body req)) (pd_keywords (parsedOf env fl b))"

text \<open>
  The document that \<open>Resume.create\<close> builds for an upload: \<open>i\<close> is its id, \<open>fileId\<close>
  the blob, \<open>cids\<close> and \<open>kids\<close> the resolved tag ids.
\<close>

definition newDoc :: "env \<Rightarrow> upload_request \<Rightarrow> parsed \<Rightarrow> string \<Rightarrow> oid \<Rightarrow> oid \<Rightarrow> oid list \<Rightarrow> oid list \<Rightarrow> resume" where
  "newDoc env req pd stem i fileId cids kids =
     \<lparr>r_id = i, r_name = trim (resolveName (now env) (u_body req) pd stem),
      r_major = trim (resolveMajor (u_body req) pd),
      r_graduationYear = trim (resolveGraduationYear (u_body req) pd),
      r_fileId = Some fileId, r_uploadedBy = js_or (user_id (u_user req)) ''admin'',
      r_companies = cids, r_keywords = kids, r_isActive = True, r_createdAt = now env,
      r_updatedAt = now env\<rparr>"


text \<open>
  The name under which a resolver looks a name up and creates its record.
\<close>

definition companyKey :: "string \<Rightarrow> string" where
  "companyKey n = formatTitleCase (trim n)"

definition keywordKey :: "string \<Rightarrow> string" where
  "keywordKey n = trim n"

text \<open>
  The resolution of a name goes through: neither the lookup nor the creation of its
  record fails.
\<close>

definition companyResolves :: "faults \<Rightarrow> string \<Rightarrow> bool" where
  "companyResolves f n =
     (f (OpCompanyFindOne (companyKey n)) = None \<and> f (OpCompanyCreate (companyKey n)) = None)"

definition keywordResolves :: "faults \<Rightarrow> string \<Rightarrow> bool" where
  "keywordResolves f n =
     (f (OpKeywordFindOne (keywordKey n)) = None \<and> f (OpKeywordCreate (keywordKey n)) = None)"

text \<open>
  The resolution of the name \<open>n\<close> fails, in a store that holds records of the names
  \<open>known\<close>: its lookup fails, or it has no record yet and the creation of one fails.
\<close>

definition companyFails :: "faults \<Rightarrow> string list \<Rightarrow> string \<Rightarrow> bool" where
  "companyFails f known n =
     (f (OpCompanyFindOne (companyKey n)) \<noteq> None
      \<or> (companyKey n \<notin> set known \<and> f (OpCompanyCreate (companyKey n)) \<noteq> None))"

definition keywordFails :: "faults \<Rightarrow> string list \<Rightarrow> string \<Rightarrow> bool" where
  "keywordFails f known n =
     (f (OpKeywordFindOne (keywordKey n)) \<noteq> None
      \<or> (keywordKey n \<notin> set known \<and> f (OpKeywordCreate (keywordKey n)) \<noteq> None))"

text \<open>
  The ids refer, one for one and in order, to records of \<open>docs\<close> that carry the names.
\<close>

definition refersTo :: "oid list \<Rightarrow> tag list \<Rightarrow> string list \<Rightarrow> bool" where
  "refersTo ids docs names =
     list_all2 (\<lambda>i n. \<exists>t \<in> set docs. tag_id t = i \<and> tag_name t = n) ids names"

text \<open>
  The record ids in the body of a search response.
\<close>

definition listed :: "response \<Rightarrow> oid list" where
  "listed res = (case payload res of SearchResult n items \<Rightarrow> map s_id items | _ \<Rightarrow> [])"

subsection \<open>Sample data\<close>

definition plainEnv :: env where
  "plainEnv =
     \<lparr>parseId = (\<lambda>s. if s = ''1'' then Some 1 else None), regexp = (\<lambda>p. Some (\<lambda>v. v = p)),
      parseResume = (\<lambda>b n. Inl ''unreadable''), now = 7, faults = noFaults,
      callbackDriver = True\<rparr>"

definition noForm :: form where
  "noForm =
     \<lparr>f_name = None, f_major = None, f_graduationYear = None, f_companies = None,
      f_keywords = None\<rparr>"

definition memberUser :: principal where
  "memberUser = \<lparr>user_id = Some ''u1'', user_role = ''member''\<rparr>"

definition gifRequest :: upload_request where
  "gifRequest =
     \<lparr>u_file = Some \<lparr>originalname = Some ''cat.pdf'', buffer = Some ''GIF89a''\<rparr>,
      u_body = noForm, u_user = memberUser\<rparr>"

definition pdfFile :: upfile where
  "pdfFile = \<lparr>originalname = Some ''alice.pdf'', buffer = Some ''%PDF-1.4''\<rparr>"

definition plainRequest :: upload_request where
  "plainRequest = \<lparr>u_file = Some pdfFile, u_body = noForm, u_user = memberUser\<rparr>"

definition tagRequest :: upload_request where
  "tagRequest =
     \<lparr>u_file = Some pdfFile,
      u_body = noForm\<lparr>f_companies := Some ''Acme,Beta'', f_keywords := Some ''sql''\<rparr>,
      u_user = memberUser\<rparr>"

definition anonRequest :: upload_request where
  "anonRequest =
     \<lparr>u_file = Some pdfFile, u_body = noForm,
      u_user = \<lparr>user_id = None, user_role = ''member''\<rparr>\<rparr>"



definition lookupFails :: env where
  "lookupFails =
     plainEnv\<lparr>faults := noFaults(OpCompanyFindOne ''Beta'' := Some (Error ''lookup failed''))\<rparr>"

definition createFails :: env where
  "createFails = plainEnv\<lparr>faults := noFaults(OpResumeCreate := Some (Error ''write conflict''))\<rparr>"

definition keywordCreateFails :: env where
  "keywordCreateFails =
     plainEnv\<lparr>faults := noFaults(OpKeywordCreate ''sql'' := Some (Error ''create failed''))\<rparr>"



definition storedResume :: resume where
  "storedResume =
     \<lparr>r_id = 1, r_name = ''Alice'', r_major = ''Math'', r_graduationYear = ''2024'',
      r_fileId = Some 0, r_uploadedBy = ''u1'', r_companies = [], r_keywords = [],
      r_isActive = True, r_createdAt = 1, r_updatedAt = 1\<rparr>"

definition storedBlob :: blob where
  "storedBlob = \<lparr>b_filename = ''alice.pdf'', b_contentType = ''application/pdf'', b_data = ''%PDF-1.4''\<rparr>"

definition tombstone :: resume where
  "tombstone = storedResume\<lparr>r_isActive := False\<rparr>"

definition oneResume :: world where
  "oneResume = emptyWorld\<lparr>resume_docs := [storedResume], blobs := [(0, storedBlob)], nextId := 2\<rparr>"

definition tombstoneWorld :: world where
  "tombstoneWorld =
     emptyWorld\<lparr>resume_docs := [storedResume\<lparr>r_isActive := False\<rparr>], blobs := [(0, storedBlob)],
                nextId := 2\<rparr>"

definition orphanWorld :: world where
  "orphanWorld = emptyWorld\<lparr>resume_docs := [storedResume], nextId := 2\<rparr>"

definition noParams :: search_params where
  "noParams =
     \<lparr>sp_query = None, sp_name = None, sp_major = None, sp_company = None,
      sp_graduationYear = None, sp_keyword = None\<rparr>"

definition repeatUpdate :: update_request where
  "repeatUpdate =
     \<lparr>ur_id = ''1'', ur_body = noForm\<lparr>f_companies := Some ''Acme,Acme''\<rparr>, ur_user = memberUser\<rparr>"

section \<open>Title case: the abbreviation list\<close>

lemmas case_defs =
  toUpperCase_def toLowerCase_def toUpperChar_def toLowerChar_def lower_letters_def
  upper_letters_def

lemmas title_defs =
  formatTitleCase_def formatWord_def commonAbbreviations_def commonLowercase_def case_defs

text \<open>
  The entries of the abbreviation list that are written in capitals are forced to
  upper case, at every position and from every casing.
\<close>

lemma formatWord_capital_abbreviation:
  "toUpperCase word \<in> set [''LLC'', ''LLP'', ''USA'', ''US'', ''UK'', ''AI'', ''IT'', ''IBM'', ''HP'',
       ''AWS'', ''GE'']
   \<Longrightarrow> formatWord index word = toUpperCase word"
  by (auto simp: formatWord_def commonAbbreviations_def)

text \<open>
  C7. The title-case normalization is to force every word of the abbreviation list to
  full upper case. The list holds \<open>Inc\<close>, \<open>Corp\<close>, \<open>Ltd\<close> and \<open>Co\<close> in mixed case, and
  the membership test compares the upper-cased word with the entries: these four never
  match, and the words come out in title case, whatever casing the caller supplied.
\<close>

theorem formatTitleCase_mixed_case_entries:
  "map formatTitleCase [''acme inc'', ''acme INC'', ''acme corp'', ''acme LTD'', ''acme co'']
     = [''Acme Inc'', ''Acme Inc'', ''Acme Corp'', ''Acme Ltd'', ''Acme Co'']"
  by (simp add: title_defs)

section \<open>The tag resolver\<close>

lemma find_named:
  "find (\<lambda>t. tag_name t = c) ds =
     (case filter (\<lambda>t. tag_name t = c) ds of [] \<Rightarrow> None | t # ts \<Rightarrow> Some t)"
  by (induction ds) auto

text \<open>Names with one canonical form: the loop adds at most one record, and only when
  the store has none of that name.\<close>

lemma companiesLoop_same_name:
  assumes "f (OpCompanyFindOne c) = None" "f (OpCompanyCreate c) = None"
    and "\<forall>n \<in> set ns. formatTitleCase (trim n) = c"
  shows "company_docs (snd (companiesLoop f ns acc w)) =
           company_docs w @ (if ns \<noteq> [] \<and> companiesNamed c w = []
                             then [\<lparr>tag_id = nextId w, tag_name = c\<rparr>] else [])"
  using assms(3)
proof (induction ns arbitrary: acc w)
  case Nil
  then show ?case by simp
next
  case (Cons n ns)
  have n: "formatTitleCase (trim n) = c" using Cons.prems by simp
  have rest: "\<forall>n \<in> set ns. formatTitleCase (trim n) = c" using Cons.prems by simp
  show ?case
  proof (cases "companiesNamed c w = []")
    case True
    let ?t = "\<lparr>tag_id = nextId w, tag_name = c\<rparr>"
    let ?w = "w\<lparr>oplog := oplog w @ [OpCompanyFindOne c, OpCompanyCreate c],
                 company_docs := company_docs w @ [?t], nextId := Suc (nextId w)\<rparr>"
    have step: "companiesLoop f (n # ns) acc w = companiesLoop f ns (acc @ [?t]) ?w"
      using True assms(1,2) n
      by (simp add: Company_findOne_def Company_create_def attempt_def find_named
          companiesNamed_def Let_def)
    have "companiesNamed c ?w = [?t]"
      using True by (simp add: companiesNamed_def)
    then have "company_docs (snd (companiesLoop f ns (acc @ [?t]) ?w)) = company_docs ?w"
      using Cons.IH[OF rest, of "acc @ [?t]" ?w] by simp
    then show ?thesis using step True by simp
  next
    case False
    then obtain t ts where t: "companiesNamed c w = t # ts"
      by (cases "companiesNamed c w") auto
    let ?w = "w\<lparr>oplog := oplog w @ [OpCompanyFindOne c]\<rparr>"
    have step: "companiesLoop f (n # ns) acc w = companiesLoop f ns (acc @ [t]) ?w"
      using t assms(1) n
      by (simp add: Company_findOne_def attempt_def find_named companiesNamed_def)
    have "companiesNamed c ?w = companiesNamed c w"
      by (simp add: companiesNamed_def)
    then show ?thesis
      using Cons.IH[OF rest, of "acc @ [t]" ?w] step False by simp
  qed
qed

lemma findOrCreateCompanies_same_name:
  assumes "f (OpCompanyFindOne c) = None" "f (OpCompanyCreate c) = None"
    and "\<forall>n \<in> set ns. formatTitleCase (trim n) = c"
  shows "company_docs (snd (findOrCreateCompanies f ns w)) =
           company_docs w @ (if ns \<noteq> [] \<and> companiesNamed c w = []
                             then [\<lparr>tag_id = nextId w, tag_name = c\<rparr>] else [])"
  using companiesLoop_same_name[OF assms, of "[]" w]
  by (simp add: findOrCreateCompanies_def)

lemma resolveInTurn_same_name:
  assumes "f (OpCompanyFindOne c) = None" "f (OpCompanyCreate c) = None"
    and "\<forall>n \<in> set (concat nss). formatTitleCase (trim n) = c"
  shows "company_docs (resolveInTurn f nss w) =
           company_docs w @ (if concat nss \<noteq> [] \<and> companiesNamed c w = []
                             then [\<lparr>tag_id = nextId w, tag_name = c\<rparr>] else [])"
  using assms(3)
proof (induction nss arbitrary: w)
  case Nil
  then show ?case by (simp add: resolveInTurn_def)
next
  case (Cons ns nss)
  let ?w = "snd (findOrCreateCompanies f ns w)"
  have ns: "\<forall>n \<in> set ns. formatTitleCase (trim n) = c"
    and rest: "\<forall>n \<in> set (concat nss). formatTitleCase (trim n) = c"
    using Cons.prems by auto
  have unfold: "resolveInTurn f (ns # nss) w = resolveInTurn f nss ?w"
    by (simp add: resolveInTurn_def)
  note first = findOrCreateCompanies_same_name[OF assms(1,2) ns, of w]
  show ?case
  proof (cases "ns = []")
    case True
    then have "?w = w" by (simp add: findOrCreateCompanies_def)
    then show ?thesis using Cons.IH[OF rest, of w] unfold True by simp
  next
    case False
    have "companiesNamed c ?w \<noteq> []"
      using first False by (auto simp: companiesNamed_def)
    then have "company_docs (resolveInTurn f nss ?w) = company_docs ?w"
      using Cons.IH[OF rest, of ?w] by simp
    then show ?thesis using unfold first False by simp
  qed
qed

lemma normalize_google_each:
  "formatTitleCase (trim ''google'') = ''Google''"
  "formatTitleCase (trim ''Google'') = ''Google''"
  "formatTitleCase (trim ''GOOGLE'') = ''Google''"
  by (simp_all add: title_defs trim_def is_space_def)

lemma normalize_google:
  "n \<in> {''google'', ''Google'', ''GOOGLE''} \<Longrightarrow> formatTitleCase (trim n) = ''Google''"
  using normalize_google_each by blast

text \<open>
  C6. The names \<open>google\<close>, \<open>Google\<close> and \<open>GOOGLE\<close> are resolved one after the other,
  in any order and any number of times, spread over any number of calls of the resolver
  (\<open>nss\<close> holds the list of names of each call). When the lookups and the creation of
  the canonical name do not fail and the store holds at most one company named
  \<open>Google\<close> before, it holds exactly one afterwards, and the only record the calls may
  have added is one named \<open>Google\<close>.
\<close>

theorem tag_resolver_google:
  assumes "f (OpCompanyFindOne ''Google'') = None" and "f (OpCompanyCreate ''Google'') = None"
    and "set (concat nss) = {''google'', ''Google'', ''GOOGLE''}"
    and "length (companiesNamed ''Google'' w) \<le> 1"
  shows "length (companiesNamed ''Google'' (resolveInTurn f nss w)) = 1
         \<and> map tag_name (company_docs (resolveInTurn f nss w)) =
             map tag_name (company_docs w)
               @ (if companiesNamed ''Google'' w = [] then [''Google''] else [])"
proof -
  have names: "\<forall>n \<in> set (concat nss). formatTitleCase (trim n) = ''Google''"
  proof
    fix n assume "n \<in> set (concat nss)"
    then have "n \<in> {''google'', ''Google'', ''GOOGLE''}" unfolding assms(3) .
    then show "formatTitleCase (trim n) = ''Google''" by (rule normalize_google)
  qed
  have nonempty: "concat nss \<noteq> []"
  proof
    assume "concat nss = []"
    then have "set (concat nss) = {}" by (simp only: set_empty2 list.set)
    then show False unfolding assms(3) by (simp only: insert_not_empty)
  qed
  note docs = resolveInTurn_same_name[OF assms(1,2) names, of w]
  show ?thesis
  proof (cases "companiesNamed ''Google'' w = []")
    case True
    then show ?thesis using docs nonempty by (simp add: companiesNamed_def)
  next
    case False
    then have "length (companiesNamed ''Google'' w) = 1"
      using assms(4) by (cases "companiesNamed ''Google'' w") auto
    then show ?thesis using docs False by (simp add: companiesNamed_def)
  qed
qed

theorem tag_resolver_google_witness:
  "length (companiesNamed ''Google''
      (resolveInTurn noFaults [[''google''], [''Google'', ''GOOGLE'']] emptyWorld)) = 1
   \<and> map tag_name (company_docs
        (resolveInTurn noFaults [[''google''], [''Google'', ''GOOGLE'']] emptyWorld)) = [''Google'']"
proof -
  have 1: "noFaults (OpCompanyFindOne ''Google'') = None"
    "noFaults (OpCompanyCreate ''Google'') = None"
    by (simp_all add: noFaults_def)
  have 2: "set (concat [[''google''], [''Google'', ''GOOGLE'']]) = {''google'', ''Google'', ''GOOGLE''}"
    by (simp only: concat.simps append.simps list.set)
  have 3: "companiesNamed ''Google'' emptyWorld = []" "company_docs emptyWorld = []"
    by (simp_all add: companiesNamed_def emptyWorld_def)
  have 4: "length (companiesNamed ''Google'' emptyWorld) \<le> 1"
    by (simp add: 3)
  show ?thesis
    using tag_resolver_google[OF 1 2 4] by (simp add: 3)
qed

section \<open>Blank strings and the schema\<close>

lemma dropWhile_all: "(\<forall>c \<in> set (dropWhile P s). P c) \<longleftrightarrow> (\<forall>c \<in> set s. P c)"
  by (induction s) auto

lemma trim_eq_Nil: "trim s = [] \<longleftrightarrow> (\<forall>c \<in> set s. is_space c)"
proof -
  have "trim s = [] \<longleftrightarrow> (\<forall>c \<in> set (dropWhile is_space s). is_space c)"
    by (simp add: trim_def dropWhile_eq_Nil_conv)
  then show ?thesis by (simp add: dropWhile_all)
qed

lemma trim_truncate255: "trim s \<noteq> [] \<Longrightarrow> trim (truncate255 s) \<noteq> []"
  by (auto simp: truncate255_def trim_eq_Nil is_space_def)

lemma trim_resolveName: "trim (resolveName time frm pd stem) \<noteq> []"
  unfolding resolveName_def Let_def
  by (rule trim_truncate255) (auto simp: trim_eq_Nil is_space_def)

lemma trim_resolveMajor: "trim (resolveMajor frm pd) \<noteq> []"
  unfolding resolveMajor_def Let_def
  by (rule trim_truncate255) (auto simp: trim_eq_Nil is_space_def)

lemma trim_resolveGraduationYear: "trim (resolveGraduationYear frm pd) \<noteq> []"
  unfolding resolveGraduationYear_def Let_def
  by (auto simp: trim_eq_Nil is_space_def)

lemma js_or_nonempty: "d \<noteq> [] \<Longrightarrow> js_or v d \<noteq> []"
  by (simp add: js_or_def split: option.splits)











lemma schema_valid_newDoc: "schema_valid (newDoc env req pd stem i fileId cids kids)"
  by (simp add: schema_valid_def newDoc_def trim_resolveName trim_resolveMajor
      trim_resolveGraduationYear js_or_nonempty)

section \<open>What the steps of an upload change\<close>

lemma blobOps_update:
  "blobOps (w\<lparr>oplog := oplog w @ ps\<rparr>) = blobOps w @ filter isBlobOp ps"
  "blobOps (w\<lparr>company_docs := cs\<rparr>) = blobOps w"
  "blobOps (w\<lparr>keyword_docs := ks\<rparr>) = blobOps w"
  "blobOps (w\<lparr>resume_docs := rs\<rparr>) = blobOps w"
  "blobOps (w\<lparr>blobs := bs\<rparr>) = blobOps w"
  "blobOps (w\<lparr>nextId := i\<rparr>) = blobOps w"
  by (simp_all add: blobOps_def)

lemma companiesLoop_keeps:
  "resume_docs (snd (companiesLoop f ns acc w)) = resume_docs w
   \<and> blobs (snd (companiesLoop f ns acc w)) = blobs w
   \<and> keyword_docs (snd (companiesLoop f ns acc w)) = keyword_docs w
   \<and> blobOps (snd (companiesLoop f ns acc w)) = blobOps w"
proof (induction ns arbitrary: acc w)
  case Nil
  then show ?case by simp
next
  case (Cons n ns)
  show ?case
    by (simp add: Cons.IH Company_findOne_def Company_create_def attempt_def blobOps_update
        Let_def split: option.splits)
qed

lemma keywordsLoop_keeps:
  "resume_docs (snd (keywordsLoop f ns acc w)) = resume_docs w
   \<and> blobs (snd (keywordsLoop f ns acc w)) = blobs w
   \<and> company_docs (snd (keywordsLoop f ns acc w)) = company_docs w
   \<and> blobOps (snd (keywordsLoop f ns acc w)) = blobOps w"
proof (induction ns arbitrary: acc w)
  case Nil
  then show ?case by simp
next
  case (Cons n ns)
  show ?case
    by (simp add: Cons.IH Keyword_findOne_def Keyword_create_def attempt_def blobOps_update
        Let_def split: option.splits)
qed

lemma associate_snd: "snd (associate r) = snd r"
  by (simp add: associate_def split: prod.splits sum.splits)

lemma associate_companies_keeps:
  "resume_docs (snd (associate_companies f ns w)) = resume_docs w"
  "blobs (snd (associate_companies f ns w)) = blobs w"
  "keyword_docs (snd (associate_companies f ns w)) = keyword_docs w"
  "blobOps (snd (associate_companies f ns w)) = blobOps w"
  by (simp_all add: associate_companies_def associate_snd findOrCreateCompanies_def
      companiesLoop_keeps)

lemma associate_keywords_keeps:
  "resume_docs (snd (associate_keywords f ns w)) = resume_docs w"
  "blobs (snd (associate_keywords f ns w)) = blobs w"
  "company_docs (snd (associate_keywords f ns w)) = company_docs w"
  "blobOps (snd (associate_keywords f ns w)) = blobOps w"
  by (simp_all add: associate_keywords_def associate_snd findOrCreateKeywords_def
      keywordsLoop_keeps)

lemma associate_companies_result:
  assumes "associate_companies f ns w = (cids, w2)"
  shows "resume_docs w2 = resume_docs w" "blobs w2 = blobs w" "keyword_docs w2 = keyword_docs w"
    "blobOps w2 = blobOps w"
  using associate_companies_keeps[of f ns w] assms by simp_all

lemma associate_keywords_result:
  assumes "associate_keywords f ns w = (kids, w3)"
  shows "resume_docs w3 = resume_docs w" "blobs w3 = blobs w" "company_docs w3 = company_docs w"
    "blobOps w3 = blobOps w"
  using associate_keywords_keeps[of f ns w] assms by simp_all

lemma associate_empty:
  "associate_companies f [] w = ([], w)" "associate_keywords f [] w = ([], w)"
  by (simp_all add: associate_companies_def associate_keywords_def)

subsection \<open>What the resolvers return\<close>

lemma find_tag_None: "find (\<lambda>t. tag_name t = c) ds = None \<longleftrightarrow> c \<notin> tag_name ` set ds"
  by (auto simp: find_None_iff)

lemma find_tag_Some: "find (\<lambda>t. tag_name t = c) ds = Some t \<Longrightarrow> t \<in> set ds \<and> tag_name t = c"
  by (auto simp: find_Some_iff)

lemma companiesLoop_found:
  assumes "f (OpCompanyFindOne (companyKey n)) = None"
    and "find (\<lambda>c. tag_name c = companyKey n) (company_docs w) = Some t"
  shows "companiesLoop f (n # ns) acc w =
           companiesLoop f ns (acc @ [t]) (w\<lparr>oplog := oplog w @ [OpCompanyFindOne (companyKey n)]\<rparr>)"
  using assms by (simp add: companyKey_def Company_findOne_def attempt_def)

lemma companiesLoop_new:
  assumes "f (OpCompanyFindOne (companyKey n)) = None"
    and "find (\<lambda>c. tag_name c = companyKey n) (company_docs w) = None"
    and "f (OpCompanyCreate (companyKey n)) = None"
  shows "companiesLoop f (n # ns) acc w =
           companiesLoop f ns (acc @ [\<lparr>tag_id = nextId w, tag_name = companyKey n\<rparr>])
             (w\<lparr>oplog := oplog w @ [OpCompanyFindOne (companyKey n), OpCompanyCreate (companyKey n)],
                company_docs := company_docs w @ [\<lparr>tag_id = nextId w, tag_name = companyKey n\<rparr>],
                nextId := Suc (nextId w)\<rparr>)"
  using assms by (simp add: companyKey_def Company_findOne_def Company_create_def attempt_def Let_def)

lemma companiesLoop_lookup_fails:
  assumes "f (OpCompanyFindOne (companyKey n)) = Some e"
  shows "companiesLoop f (n # ns) acc w
           = (Inl e, w\<lparr>oplog := oplog w @ [OpCompanyFindOne (companyKey n)]\<rparr>)"
  using assms by (simp add: companyKey_def Company_findOne_def attempt_def)

lemma companiesLoop_create_fails:
  assumes "f (OpCompanyFindOne (companyKey n)) = None"
    and "find (\<lambda>c. tag_name c = companyKey n) (company_docs w) = None"
    and "f (OpCompanyCreate (companyKey n)) = Some e"
  shows "companiesLoop f (n # ns) acc w
           = (Inl e, w\<lparr>oplog := oplog w @ [OpCompanyFindOne (companyKey n),
                                              OpCompanyCreate (companyKey n)]\<rparr>)"
  using assms by (simp add: companyKey_def Company_findOne_def Company_create_def attempt_def)

lemma companiesLoop_fails:
  assumes "companyFails f (map tag_name (company_docs w)) n"
  shows "isl (fst (companiesLoop f (n # ns) acc w))
         \<and> company_docs (snd (companiesLoop f (n # ns) acc w)) = company_docs w"
proof (cases "f (OpCompanyFindOne (companyKey n))")
  case (Some e)
  then show ?thesis by (simp add: companiesLoop_lookup_fails del: companiesLoop.simps)
next
  case None
  then have new: "companyKey n \<notin> tag_name ` set (company_docs w)"
    and "f (OpCompanyCreate (companyKey n)) \<noteq> None"
    using assms by (simp_all add: companyFails_def)
  then obtain e where "f (OpCompanyCreate (companyKey n)) = Some e" by auto
  then show ?thesis
    using None new by (simp add: companiesLoop_create_fails find_tag_None del: companiesLoop.simps)
qed

lemma companiesLoop_grows:
  "set (company_docs w) \<subseteq> set (company_docs (snd (companiesLoop f ns acc w)))"
proof (induction ns arbitrary: acc w)
  case Nil
  then show ?case by simp
next
  case (Cons n ns)
  show ?case
  proof (cases "f (OpCompanyFindOne (companyKey n))")
    case (Some e)
    then show ?thesis by (simp add: companiesLoop_lookup_fails del: companiesLoop.simps)
  next
    case None
    show ?thesis
    proof (cases "find (\<lambda>c. tag_name c = companyKey n) (company_docs w)")
      case (Some t)
      show ?thesis
        using Cons.IH[of "w\<lparr>oplog := oplog w @ [OpCompanyFindOne (companyKey n)]\<rparr>" "acc @ [t]"]
        by (simp add: companiesLoop_found[of f n w t, OF None Some] del: companiesLoop.simps)
    next
      case absent: None
      show ?thesis
      proof (cases "f (OpCompanyCreate (companyKey n))")
        case (Some e)
        then show ?thesis by (simp add: companiesLoop_create_fails[of f n w, OF None absent] del: companiesLoop.simps)
      next
        case ok: None
        let ?t = "\<lparr>tag_id = nextId w, tag_name = companyKey n\<rparr>"
        show ?thesis
          using Cons.IH[of "w\<lparr>oplog := oplog w @ [OpCompanyFindOne (companyKey n),
                                                  OpCompanyCreate (companyKey n)],
                             company_docs := company_docs w @ [?t],
                             nextId := Suc (nextId w)\<rparr>" "acc @ [?t]"]
          by (simp add: companiesLoop_new[of f n w, OF None absent ok] del: companiesLoop.simps)
      qed
    qed
  qed
qed

text \<open>When every name resolves, the loop returns one record of the store for each
  name, in order.\<close>

lemma companiesLoop_resolved:
  assumes "\<forall>m \<in> set ns. companyResolves f m"
  shows "\<exists>ts. fst (companiesLoop f ns acc w) = Inr (acc @ ts)
           \<and> list_all2 (\<lambda>t m. t \<in> set (company_docs (snd (companiesLoop f ns acc w)))
                              \<and> tag_name t = companyKey m) ts ns"
  using assms
proof (induction ns arbitrary: acc w)
  case Nil
  then show ?case by simp
next
  case (Cons n ns)
  have n: "f (OpCompanyFindOne (companyKey n)) = None" "f (OpCompanyCreate (companyKey n)) = None"
    and rest: "\<forall>m \<in> set ns. companyResolves f m"
    using Cons.prems by (simp_all add: companyResolves_def)
  have "\<exists>t w1. companiesLoop f (n # ns) acc w = companiesLoop f ns (acc @ [t]) w1
           \<and> t \<in> set (company_docs w1) \<and> tag_name t = companyKey n"
  proof (cases "find (\<lambda>c. tag_name c = companyKey n) (company_docs w)")
    case (Some t)
    show ?thesis
      using find_tag_Some[OF Some] companiesLoop_found[of f n w t ns acc, OF n(1) Some]
      by (intro exI[of _ t] exI[of _ "w\<lparr>oplog := oplog w @ [OpCompanyFindOne (companyKey n)]\<rparr>"])
        simp
  next
    case None
    let ?t = "\<lparr>tag_id = nextId w, tag_name = companyKey n\<rparr>"
    show ?thesis
      using companiesLoop_new[of f n w ns acc, OF n(1) None n(2)]
      by (intro exI[of _ ?t]
          exI[of _ "w\<lparr>oplog := oplog w @ [OpCompanyFindOne (companyKey n),
                                            OpCompanyCreate (companyKey n)],
                       company_docs := company_docs w @ [?t], nextId := Suc (nextId w)\<rparr>"])
        simp
  qed
  then obtain t w1 where step: "companiesLoop f (n # ns) acc w = companiesLoop f ns (acc @ [t]) w1"
    and t: "t \<in> set (company_docs w1)" "tag_name t = companyKey n"
    by blast
  obtain ts where ts: "fst (companiesLoop f ns (acc @ [t]) w1) = Inr ((acc @ [t]) @ ts)"
    "list_all2 (\<lambda>x m. x \<in> set (company_docs (snd (companiesLoop f ns (acc @ [t]) w1)))
                       \<and> tag_name x = companyKey m) ts ns"
    using Cons.IH[OF rest, of "acc @ [t]" w1] by blast
  have "t \<in> set (company_docs (snd (companiesLoop f ns (acc @ [t]) w1)))"
    using t(1) companiesLoop_grows[of w1 f ns "acc @ [t]"] by blast
  then show ?case
    unfolding step using ts t(2) by (intro exI[of _ "t # ts"]) simp
qed

text \<open>When the names before \<open>n\<close> resolve and \<open>n\<close> fails, the loop ends with the
  error, and the records of the names before \<open>n\<close> are in the store.\<close>

lemma companiesLoop_failed:
  assumes "\<forall>m \<in> set pre. companyResolves f m"
    and "companyFails f (map tag_name (company_docs w) @ map companyKey pre) n"
  shows "isl (fst (companiesLoop f (pre @ n # post) acc w))
         \<and> companyKey ` set pre
             \<subseteq> tag_name ` set (company_docs (snd (companiesLoop f (pre @ n # post) acc w)))"
  using assms
proof (induction pre arbitrary: acc w)
  case Nil
  then show ?case using companiesLoop_fails[of f w n post acc] by simp
next
  case (Cons m pre)
  have m: "f (OpCompanyFindOne (companyKey m)) = None" "f (OpCompanyCreate (companyKey m)) = None"
    and rest: "\<forall>m \<in> set pre. companyResolves f m"
    using Cons.prems(1) by (simp_all add: companyResolves_def)
  have "\<exists>t w1. companiesLoop f ((m # pre) @ n # post) acc w
                  = companiesLoop f (pre @ n # post) (acc @ [t]) w1
           \<and> companyKey m \<in> tag_name ` set (company_docs w1)
           \<and> set (map tag_name (company_docs w1))
               \<subseteq> set (map tag_name (company_docs w)) \<union> {companyKey m}"
  proof (cases "find (\<lambda>c. tag_name c = companyKey m) (company_docs w)")
    case (Some t)
    show ?thesis
      using find_tag_Some[OF Some] companiesLoop_found[of f m w t "pre @ n # post" acc, OF m(1) Some]
      by (intro exI[of _ t] exI[of _ "w\<lparr>oplog := oplog w @ [OpCompanyFindOne (companyKey m)]\<rparr>"])
        (auto simp del: companiesLoop.simps intro: rev_image_eqI)
  next
    case None
    let ?t = "\<lparr>tag_id = nextId w, tag_name = companyKey m\<rparr>"
    show ?thesis
      using companiesLoop_new[of f m w "pre @ n # post" acc, OF m(1) None m(2)]
      by (intro exI[of _ ?t]
          exI[of _ "w\<lparr>oplog := oplog w @ [OpCompanyFindOne (companyKey m),
                                            OpCompanyCreate (companyKey m)],
                       company_docs := company_docs w @ [?t], nextId := Suc (nextId w)\<rparr>"])
        (auto simp del: companiesLoop.simps)
  qed
  then obtain t w1 where
    step: "companiesLoop f ((m # pre) @ n # post) acc w
             = companiesLoop f (pre @ n # post) (acc @ [t]) w1"
    and here: "companyKey m \<in> tag_name ` set (company_docs w1)"
    and known: "set (map tag_name (company_docs w1))
                  \<subseteq> set (map tag_name (company_docs w)) \<union> {companyKey m}"
    by blast
  have fails: "companyFails f (map tag_name (company_docs w1) @ map companyKey pre) n"
    using Cons.prems(2) known by (auto simp: companyFails_def)
  note ih = Cons.IH[OF rest fails, of "acc @ [t]"]
  have "companyKey m
          \<in> tag_name ` set (company_docs (snd (companiesLoop f (pre @ n # post) (acc @ [t]) w1)))"
    using here companiesLoop_grows[of w1 f "pre @ n # post" "acc @ [t]"] by blast
  then show ?case unfolding step using ih by simp
qed

lemma keywordsLoop_found:
  assumes "f (OpKeywordFindOne (keywordKey n)) = None"
    and "find (\<lambda>c. tag_name c = keywordKey n) (keyword_docs w) = Some t"
  shows "keywordsLoop f (n # ns) acc w =
           keywordsLoop f ns (acc @ [t]) (w\<lparr>oplog := oplog w @ [OpKeywordFindOne (keywordKey n)]\<rparr>)"
  using assms by (simp add: keywordKey_def Keyword_findOne_def attempt_def)

lemma keywordsLoop_new:
  assumes "f (OpKeywordFindOne (keywordKey n)) = None"
    and "find (\<lambda>c. tag_name c = keywordKey n) (keyword_docs w) = None"
    and "f (OpKeywordCreate (keywordKey n)) = None"
  shows "keywordsLoop f (n # ns) acc w =
           keywordsLoop f ns (acc @ [\<lparr>tag_id = nextId w, tag_name = keywordKey n\<rparr>])
             (w\<lparr>oplog := oplog w @ [OpKeywordFindOne (keywordKey n), OpKeywordCreate (keywordKey n)],
                keyword_docs := keyword_docs w @ [\<lparr>tag_id = nextId w, tag_name = keywordKey n\<rparr>],
                nextId := Suc (nextId w)\<rparr>)"
  using assms by (simp add: keywordKey_def Keyword_findOne_def Keyword_create_def attempt_def Let_def)

lemma keywordsLoop_lookup_fails:
  assumes "f (OpKeywordFindOne (keywordKey n)) = Some e"
  shows "keywordsLoop f (n # ns) acc w
           = (Inl e, w\<lparr>oplog := oplog w @ [OpKeywordFindOne (keywordKey n)]\<rparr>)"
  using assms by (simp add: keywordKey_def Keyword_findOne_def attempt_def)

lemma keywordsLoop_create_fails:
  assumes "f (OpKeywordFindOne (keywordKey n)) = None"
    and "find (\<lambda>c. tag_name c = keywordKey n) (keyword_docs w) = None"
    and "f (OpKeywordCreate (keywordKey n)) = Some e"
  shows "keywordsLoop f (n # ns) acc w
           = (Inl e, w\<lparr>oplog := oplog w @ [OpKeywordFindOne (keywordKey n),
                                              OpKeywordCreate (keywordKey n)]\<rparr>)"
  using assms by (simp add: keywordKey_def Keyword_findOne_def Keyword_create_def attempt_def)

lemma keywordsLoop_fails:
  assumes "keywordFails f (map tag_name (keyword_docs w)) n"
  shows "isl (fst (keywordsLoop f (n # ns) acc w))
         \<and> keyword_docs (snd (keywordsLoop f (n # ns) acc w)) = keyword_docs w"
proof (cases "f (OpKeywordFindOne (keywordKey n))")
  case (Some e)
  then show ?thesis by (simp add: keywordsLoop_lookup_fails del: keywordsLoop.simps)
next
  case None
  then have new: "keywordKey n \<notin> tag_name ` set (keyword_docs w)"
    and "f (OpKeywordCreate (keywordKey n)) \<noteq> None"
    using assms by (simp_all add: keywordFails_def)
  then obtain e where "f (OpKeywordCreate (keywordKey n)) = Some e" by auto
  then show ?thesis
    using None new by (simp add: keywordsLoop_create_fails find_tag_None del: keywordsLoop.simps)
qed

lemma keywordsLoop_grows:
  "set (keyword_docs w) \<subseteq> set (keyword_docs (snd (keywordsLoop f ns acc w)))"
proof (induction ns arbitrary: acc w)
  case Nil
  then show ?case by simp
next
  case (Cons n ns)
  show ?case
  proof (cases "f (OpKeywordFindOne (keywordKey n))")
    case (Some e)
    then show ?thesis by (simp add: keywordsLoop_lookup_fails del: keywordsLoop.simps)
  next
    case None
    show ?thesis
    proof (cases "find (\<lambda>c. tag_name c = keywordKey n) (keyword_docs w)")
      case (Some t)
      show ?thesis
        using Cons.IH[of "w\<lparr>oplog := oplog w @ [OpKeywordFindOne (keywordKey n)]\<rparr>" "acc @ [t]"]
        by (simp add: keywordsLoop_found[of f n w t, OF None Some] del: keywordsLoop.simps)
    next
      case absent: None
      show ?thesis
      proof (cases "f (OpKeywordCreate (keywordKey n))")
        case (Some e)
        then show ?thesis by (simp add: keywordsLoop_create_fails[of f n w, OF None absent] del: keywordsLoop.simps)
      next
        case ok: None
        let ?t = "\<lparr>tag_id = nextId w, tag_name = keywordKey n\<rparr>"
        show ?thesis
          using Cons.IH[of "w\<lparr>oplog := oplog w @ [OpKeywordFindOne (keywordKey n),
                                                  OpKeywordCreate (keywordKey n)],
                             keyword_docs := keyword_docs w @ [?t],
                             nextId := Suc (nextId w)\<rparr>" "acc @ [?t]"]
          by (simp add: keywordsLoop_new[of f n w, OF None absent ok] del: keywordsLoop.simps)
      qed
    qed
  qed
qed

text \<open>When every name resolves, the loop returns one record of the store for each
  name, in order.\<close>

lemma keywordsLoop_resolved:
  assumes "\<forall>m \<in> set ns. keywordResolves f m"
  shows "\<exists>ts. fst (keywordsLoop f ns acc w) = Inr (acc @ ts)
           \<and> list_all2 (\<lambda>t m. t \<in> set (keyword_docs (snd (keywordsLoop f ns acc w)))
                              \<and> tag_name t = keywordKey m) ts ns"
  using assms
proof (induction ns arbitrary: acc w)
  case Nil
  then show ?case by simp
next
  case (Cons n ns)
  have n: "f (OpKeywordFindOne (keywordKey n)) = None" "f (OpKeywordCreate (keywordKey n)) = None"
    and rest: "\<forall>m \<in> set ns. keywordResolves f m"
    using Cons.prems by (simp_all add: keywordResolves_def)
  have "\<exists>t w1. keywordsLoop f (n # ns) acc w = keywordsLoop f ns (acc @ [t]) w1
           \<and> t \<in> set (keyword_docs w1) \<and> tag_name t = keywordKey n"
  proof (cases "find (\<lambda>c. tag_name c = keywordKey n) (keyword_docs w)")
    case (Some t)
    show ?thesis
      using find_tag_Some[OF Some] keywordsLoop_found[of f n w t ns acc, OF n(1) Some]
      by (intro exI[of _ t] exI[of _ "w\<lparr>oplog := oplog w @ [OpKeywordFindOne (keywordKey n)]\<rparr>"])
        simp
  next
    case None
    let ?t = "\<lparr>tag_id = nextId w, tag_name = keywordKey n\<rparr>"
    show ?thesis
      using keywordsLoop_new[of f n w ns acc, OF n(1) None n(2)]
      by (intro exI[of _ ?t]
          exI[of _ "w\<lparr>oplog := oplog w @ [OpKeywordFindOne (keywordKey n),
                                            OpKeywordCreate (keywordKey n)],
                       keyword_docs := keyword_docs w @ [?t], nextId := Suc (nextId w)\<rparr>"])
        simp
  qed
  then obtain t w1 where step: "keywordsLoop f (n # ns) acc w = keywordsLoop f ns (acc @ [t]) w1"
    and t: "t \<in> set (keyword_docs w1)" "tag_name t = keywordKey n"
    by blast
  obtain ts where ts: "fst (keywordsLoop f ns (acc @ [t]) w1) = Inr ((acc @ [t]) @ ts)"
    "list_all2 (\<lambda>x m. x \<in> set (keyword_docs (snd (keywordsLoop f ns (acc @ [t]) w1)))
                       \<and> tag_name x = keywordKey m) ts ns"
    using Cons.IH[OF rest, of "acc @ [t]" w1] by blast
  have "t \<in> set (keyword_docs (snd (keywordsLoop f ns (acc @ [t]) w1)))"
    using t(1) keywordsLoop_grows[of w1 f ns "acc @ [t]"] by blast
  then show ?case
    unfolding step using ts t(2) by (intro exI[of _ "t # ts"]) simp
qed

text \<open>When the names before \<open>n\<close> resolve and \<open>n\<close> fails, the loop ends with the
  error, and the records of the names before \<open>n\<close> are in the store.\<close>

lemma keywordsLoop_failed:
  assumes "\<forall>m \<in> set pre. keywordResolves f m"
    and "keywordFails f (map tag_name (keyword_docs w) @ map keywordKey pre) n"
  shows "isl (fst (keywordsLoop f (pre @ n # post) acc w))
         \<and> keywordKey ` set pre
             \<subseteq> tag_name ` set (keyword_docs (snd (keywordsLoop f (pre @ n # post) acc w)))"
  using assms
proof (induction pre arbitrary: acc w)
  case Nil
  then show ?case using keywordsLoop_fails[of f w n post acc] by simp
next
  case (Cons m pre)
  have m: "f (OpKeywordFindOne (keywordKey m)) = None" "f (OpKeywordCreate (keywordKey m)) = None"
    and rest: "\<forall>m \<in> set pre. keywordResolves f m"
    using Cons.prems(1) by (simp_all add: keywordResolves_def)
  have "\<exists>t w1. keywordsLoop f ((m # pre) @ n # post) acc w
                  = keywordsLoop f (pre @ n # post) (acc @ [t]) w1
           \<and> keywordKey m \<in> tag_name ` set (keyword_docs w1)
           \<and> set (map tag_name (keyword_docs w1))
               \<subseteq> set (map tag_name (keyword_docs w)) \<union> {keywordKey m}"
  proof (cases "find (\<lambda>c. tag_name c = keywordKey m) (keyword_docs w)")
    case (Some t)
    show ?thesis
      using find_tag_Some[OF Some] keywordsLoop_found[of f m w t "pre @ n # post" acc, OF m(1) Some]
      by (intro exI[of _ t] exI[of _ "w\<lparr>oplog := oplog w @ [OpKeywordFindOne (keywordKey m)]\<rparr>"])
        (auto simp del: keywordsLoop.simps intro: rev_image_eqI)
  next
    case None
    let ?t = "\<lparr>tag_id = nextId w, tag_name = keywordKey m\<rparr>"
    show ?thesis
      using keywordsLoop_new[of f m w "pre @ n # post" acc, OF m(1) None m(2)]
      by (intro exI[of _ ?t]
          exI[of _ "w\<lparr>oplog := oplog w @ [OpKeywordFindOne (keywordKey m),
                                            OpKeywordCreate (keywordKey m)],
                       keyword_docs := keyword_docs w @ [?t], nextId := Suc (nextId w)\<rparr>"])
        (auto simp del: keywordsLoop.simps)
  qed
  then obtain t w1 where
    step: "keywordsLoop f ((m # pre) @ n # post) acc w
             = keywordsLoop f (pre @ n # post) (acc @ [t]) w1"
    and here: "keywordKey m \<in> tag_name ` set (keyword_docs w1)"
    and known: "set (map tag_name (keyword_docs w1))
                  \<subseteq> set (map tag_name (keyword_docs w)) \<union> {keywordKey m}"
    by blast
  have fails: "keywordFails f (map tag_name (keyword_docs w1) @ map keywordKey pre) n"
    using Cons.prems(2) known by (auto simp: keywordFails_def)
  note ih = Cons.IH[OF rest fails, of "acc @ [t]"]
  have "keywordKey m
          \<in> tag_name ` set (keyword_docs (snd (keywordsLoop f (pre @ n # post) (acc @ [t]) w1)))"
    using here keywordsLoop_grows[of w1 f "pre @ n # post" "acc @ [t]"] by blast
  then show ?case unfolding step using ih by simp
qed

lemma refersTo_records:
  assumes "list_all2 (\<lambda>t m. t \<in> set docs \<and> tag_name t = key m) ts ns"
  shows "refersTo (map tag_id ts) docs (map key ns)"
  unfolding refersTo_def list_all2_map1 list_all2_map2
  using assms by (rule list_all2_mono) auto

lemma associate_companies_failed:
  assumes "\<forall>m \<in> set pre. companyResolves f m"
    and "companyFails f (map tag_name (company_docs w) @ map companyKey pre) n"
  shows "fst (associate_companies f (pre @ n # post) w) = []
         \<and> companyKey ` set pre
             \<subseteq> tag_name ` set (company_docs (snd (associate_companies f (pre @ n # post) w)))"
  using companiesLoop_failed[OF assms, of post "[]"]
  by (simp add: associate_companies_def findOrCreateCompanies_def associate_snd)
    (simp add: associate_def isl_def split: prod.splits sum.splits, auto)

lemma associate_keywords_failed:
  assumes "\<forall>m \<in> set pre. keywordResolves f m"
    and "keywordFails f (map tag_name (keyword_docs w) @ map keywordKey pre) n"
  shows "fst (associate_keywords f (pre @ n # post) w) = []
         \<and> keywordKey ` set pre
             \<subseteq> tag_name ` set (keyword_docs (snd (associate_keywords f (pre @ n # post) w)))"
  using keywordsLoop_failed[OF assms, of post "[]"]
  by (simp add: associate_keywords_def findOrCreateKeywords_def associate_snd)
    (simp add: associate_def isl_def split: prod.splits sum.splits, auto)

lemma associate_companies_resolved:
  assumes "\<forall>m \<in> set ns. companyResolves f m"
  shows "refersTo (fst (associate_companies f ns w))
           (company_docs (snd (associate_companies f ns w))) (map companyKey ns)"
proof (cases "ns = []")
  case True
  then show ?thesis by (simp add: associate_empty refersTo_def)
next
  case False
  obtain ts where ts: "fst (companiesLoop f ns [] w) = Inr ([] @ ts)"
    "list_all2 (\<lambda>t m. t \<in> set (company_docs (snd (companiesLoop f ns [] w)))
                       \<and> tag_name t = companyKey m) ts ns"
    using companiesLoop_resolved[OF assms, of "[]" w] by blast
  have "fst (associate_companies f ns w) = map tag_id ts"
    using ts(1) False
    by (cases "companiesLoop f ns [] w")
      (simp add: associate_companies_def findOrCreateCompanies_def associate_def)
  moreover have "snd (associate_companies f ns w) = snd (companiesLoop f ns [] w)"
    using False by (simp add: associate_companies_def findOrCreateCompanies_def associate_snd)
  ultimately show ?thesis using refersTo_records[OF ts(2)] by simp
qed

lemma associate_keywords_resolved:
  assumes "\<forall>m \<in> set ns. keywordResolves f m"
  shows "refersTo (fst (associate_keywords f ns w))
           (keyword_docs (snd (associate_keywords f ns w))) (map keywordKey ns)"
proof (cases "ns = []")
  case True
  then show ?thesis by (simp add: associate_empty refersTo_def)
next
  case False
  obtain ts where ts: "fst (keywordsLoop f ns [] w) = Inr ([] @ ts)"
    "list_all2 (\<lambda>t m. t \<in> set (keyword_docs (snd (keywordsLoop f ns [] w)))
                       \<and> tag_name t = keywordKey m) ts ns"
    using keywordsLoop_resolved[OF assms, of "[]" w] by blast
  have "fst (associate_keywords f ns w) = map tag_id ts"
    using ts(1) False
    by (cases "keywordsLoop f ns [] w")
      (simp add: associate_keywords_def findOrCreateKeywords_def associate_def)
  moreover have "snd (associate_keywords f ns w) = snd (keywordsLoop f ns [] w)"
    using False by (simp add: associate_keywords_def findOrCreateKeywords_def associate_snd)
  ultimately show ?thesis using refersTo_records[OF ts(2)] by simp
qed

subsection \<open>The other steps\<close>




lemma uploadFile_ok:
  "f OpBlobWrite = None \<Longrightarrow> uploadFile f b (sanitize fn) ''application/pdf'' w = (Inr (nextId w), stored fn b w)"
  by (simp add: uploadFile_def attempt_def stored_def)

lemma stored_facts:
  "blobOps (stored fn b w) = blobOps w @ [OpBlobWrite]"
  "resume_docs (stored fn b w) = resume_docs w"
  by (simp_all add: stored_def blobOps_def)

lemma afterUpload_docs:
  "faults env OpBlobWrite = None \<Longrightarrow> company_docs (afterUpload env fl b w) = company_docs w"
  "faults env OpBlobWrite = None \<Longrightarrow> keyword_docs (afterUpload env fl b w) = keyword_docs w"
  by (simp_all add: afterUpload_def uploadFile_ok stored_def)

lemma Resume_create_newDoc:
  "Resume_create (faults env) (now env) s (resolveName (now env) (u_body req) pd stem)
     (resolveMajor (u_body req) pd) (resolveGraduationYear (u_body req) pd) (Some fileId)
     (js_or (user_id (u_user req)) ''admin'') cids kids w =
   (case faults env OpResumeCreate of
      Some e \<Rightarrow> (Inl e, s, w\<lparr>nextId := Suc (nextId w), oplog := oplog w @ [OpResumeCreate]\<rparr>)
    | None \<Rightarrow> (Inr (newDoc env req pd stem (nextId w) fileId cids kids),
               s\<lparr>pending := pending s @ [Insert (newDoc env req pd stem (nextId w) fileId cids kids)]\<rparr>,
               w\<lparr>nextId := Suc (nextId w), oplog := oplog w @ [OpResumeCreate]\<rparr>))"
  using schema_valid_newDoc[of env req pd stem "nextId w" fileId cids kids]
  by (simp add: Resume_create_def Let_def attempt_def newDoc_def split: option.splits)

section \<open>The upload, stage by stage\<close>

lemma uploadResume_accepted:
  assumes "u_file req = Some fl" "acceptedFile fl b"
  shows "uploadResume env req w =
     (case upload_persist env req b (js_or (originalname fl) ''Unnamed file'')
             (fst (parseOrFallback env b (filenameWithoutExt (now env) fl)))
             (snd (parseOrFallback env b (filenameWithoutExt (now env) fl)))
             (filenameWithoutExt (now env) fl) startTransaction w of
        (Inr res, w1) \<Rightarrow> (Some res, w1)
      | (Inl (Thrown currentStep gridfsFileId s error), w1) \<Rightarrow>
          upload_catch env (js_or (originalname fl) ''Unnamed file'') currentStep gridfsFileId s
            error w1)"
  using assms
  by (simp add: uploadResume_def upload_try_def acceptedFile_def Let_def split_beta)



lemma persist_success:
  assumes "faults env OpBlobWrite = None" "faults env OpResumeCreate = None"
    "faults env OpCommitTransaction = None"
    and ac: "associate_companies (faults env)
               (uniqueList (f_companies (u_body req)) (pd_companies pd)) (stored fn b w) = (cids, w2)"
    and ak: "associate_keywords (faults env)
               (uniqueList (f_keywords (u_body req)) (pd_keywords pd)) w2 = (kids, w3)"
  shows "upload_persist env req b fn pd pem stem startTransaction w =
           (Inr (json 201 (Uploaded (''Resume '' @ quoted fn @ '' uploaded successfully.'')
                   \<lparr>d_id = nextId w3, d_name = trim (resolveName (now env) (u_body req) pd stem),
                    d_major = trim (resolveMajor (u_body req) pd),
                    d_graduationYear = trim (resolveGraduationYear (u_body req) pd),
                    d_parsingWarning = pem,
                    d_companies = uniqueList (f_companies (u_body req)) (pd_companies pd),
                    d_keywords = uniqueList (f_keywords (u_body req)) (pd_keywords pd)\<rparr>)),
            w3\<lparr>nextId := Suc (nextId w3),
               oplog := oplog w3 @ [OpResumeCreate, OpCommitTransaction],
               resume_docs := resume_docs w3 @ [newDoc env req pd stem (nextId w3) (nextId w) cids kids]\<rparr>)"
  by (simp add: upload_persist_def Let_def uploadFile_ok assms Resume_create_newDoc
      commitTransaction_def startTransaction_def attempt_def newDoc_def)












lemma uploadResume_success:
  assumes "faults env OpBlobWrite = None" "faults env OpResumeCreate = None"
    "faults env OpCommitTransaction = None"
    and "u_file req = Some fl" "acceptedFile fl b"
    and ac: "associate_companies (faults env) (companyNames env req fl b)
               (afterUpload env fl b w) = (cids, w2)"
    and ak: "associate_keywords (faults env) (keywordNames env req fl b) w2 = (kids, w3)"
  shows "uploadResume env req w =
           (Some (json 201 (Uploaded (''Resume '' @ quoted (js_or (originalname fl) ''Unnamed file'')
                                  @ '' uploaded successfully.'')
                   \<lparr>d_id = nextId w3,
                    d_name = trim (resolveName (now env) (u_body req) (parsedOf env fl b)
                                     (filenameWithoutExt (now env) fl)),
                    d_major = trim (resolveMajor (u_body req) (parsedOf env fl b)),
                    d_graduationYear = trim (resolveGraduationYear (u_body req) (parsedOf env fl b)),
                    d_parsingWarning = snd (parseOrFallback env b (filenameWithoutExt (now env) fl)),
                    d_companies = companyNames env req fl b,
                    d_keywords = keywordNames env req fl b\<rparr>)),
            w3\<lparr>nextId := Suc (nextId w3),
               oplog := oplog w3 @ [OpResumeCreate, OpCommitTransaction],
               resume_docs := resume_docs w
                 @ [newDoc env req (parsedOf env fl b) (filenameWithoutExt (now env) fl)
                      (nextId w3) (nextId w) cids kids]\<rparr>)"
proof -
  let ?fn = "js_or (originalname fl) ''Unnamed file''"
  have st: "afterUpload env fl b w = stored ?fn b w"
    by (simp add: afterUpload_def uploadFile_ok assms(1))
  have docs: "resume_docs w3 = resume_docs w"
    using associate_keywords_result(1)[OF ak] associate_companies_result(1)[OF ac]
    by (simp add: st stored_facts)
  show ?thesis
    using persist_success[OF assms(1,2,3), of req "parsedOf env fl b" ?fn b w cids w2 kids w3
        "snd (parseOrFallback env b (filenameWithoutExt (now env) fl))"
        "filenameWithoutExt (now env) fl"] ac ak
    by (simp add: uploadResume_accepted[OF assms(4,5)] docs companyNames_def keywordNames_def
        parsedOf_def st)
qed

lemma upload_try_rejected:
  assumes "rejectedFile (u_file req)"
  shows "\<exists>msg. upload_try env req fn s w = reject (faults env) s msg w"
proof (cases "u_file req")
  case None
  then show ?thesis by (auto simp: upload_try_def intro!: exI)
next
  case (Some fl)
  show ?thesis
  proof (cases "buffer fl")
    case None
    then show ?thesis using Some by (auto simp: upload_try_def intro!: exI)
  next
    case (Some b)
    have "b = [] \<or> length b > 10 * 1024 * 1024 \<or> take 4 b \<noteq> ''%PDF''"
      using assms \<open>u_file req = Some fl\<close> Some by (simp add: rejectedFile_def)
    then show ?thesis
      using \<open>u_file req = Some fl\<close> Some by (auto simp: upload_try_def intro!: exI)
  qed
qed





subsection \<open>Runs on the sample data\<close>

lemmas string_defs =
  trim_def is_space_def js_or_def truthy_def csv_def quoted_def removeExtension_def sanitize_def
  digits_def

lemmas store_defs =
  attempt_def Company_findOne_def Company_create_def Keyword_findOne_def Keyword_create_def
  findOrCreateCompanies_def findOrCreateKeywords_def uploadFile_def deleteFile_def
  bucket_delete_def
  abortTransaction_def commitTransaction_def startTransaction_def inTransaction_def
  Resume_create_def schema_valid_def Error_def

lemmas upload_defs =
  uploadResume_def upload_try_def upload_persist_def upload_catch_def reject_def
  associate_def associate_companies_def associate_keywords_def parseOrFallback_def
  fallbackData_def filenameWithoutExt_def resolveName_def resolveMajor_def
  resolveGraduationYear_def uniqueList_def truncate255_def userMessage_def json_def

lemmas sample_defs =
  plainEnv_def noFaults_def emptyWorld_def noForm_def memberUser_def pdfFile_def
  plainRequest_def tagRequest_def lookupFails_def createFails_def gifRequest_def

lemmas update_defs =
  updateResume_def update_try_def update_apply_def update_respond_def denied_def setField_def
  reassign_def Resume_save_def Resume_findById_def Resume_findOne_def populate_def fileUrl_def
  List.map_filter_def

lemmas world_defs =
  storedResume_def storedBlob_def oneResume_def tombstoneWorld_def orphanWorld_def noParams_def
  repeatUpdate_def anonRequest_def

lemma accepted_pdfFile: "acceptedFile pdfFile ''%PDF-1.4''"
  by (simp add: acceptedFile_def pdfFile_def)

lemma tag_failure_run:
  "uploadResume lookupFails tagRequest emptyWorld =
     (Some (json 201 (Uploaded (''Resume '' @ quoted ''alice.pdf'' @ '' uploaded successfully.'')
        \<lparr>d_id = 3, d_name = ''alice'', d_major = ''Unspecified'',
         d_graduationYear = ''Unspecified'', d_parsingWarning = Some ''unreadable'',
         d_companies = [''Acme'', ''Beta''], d_keywords = [''sql'']\<rparr>)),
      \<lparr>resume_docs =
         [\<lparr>r_id = 3, r_name = ''alice'', r_major = ''Unspecified'',
           r_graduationYear = ''Unspecified'', r_fileId = Some 0, r_uploadedBy = ''u1'',
           r_companies = [], r_keywords = [2], r_isActive = True, r_createdAt = 7,
           r_updatedAt = 7\<rparr>],
       company_docs = [\<lparr>tag_id = 1, tag_name = ''Acme''\<rparr>],
       keyword_docs = [\<lparr>tag_id = 2, tag_name = ''sql''\<rparr>],
       blobs = [(0, \<lparr>b_filename = ''alice.pdf'', b_contentType = ''application/pdf'',
                      b_data = ''%PDF-1.4''\<rparr>)],
       nextId = 4,
       oplog = [OpBlobWrite, OpCompanyFindOne ''Acme'', OpCompanyCreate ''Acme'',
                OpCompanyFindOne ''Beta'', OpKeywordFindOne ''sql'', OpKeywordCreate ''sql'',
                OpResumeCreate, OpCommitTransaction]\<rparr>)"
  by (simp add: upload_defs store_defs string_defs title_defs sample_defs Let_def)



lemma tagRequest_names:
  "companyNames env tagRequest pdfFile ''%PDF-1.4'' = [''Acme''] @ ''Beta'' # []"
  "keywordNames env tagRequest pdfFile ''%PDF-1.4'' = [] @ ''sql'' # []"
  by (simp_all add: companyNames_def keywordNames_def uniqueList_def tagRequest_def noForm_def
      csv_def trim_def is_space_def)

lemma sample_keys:
  "companyKey ''Acme'' = ''Acme''" "companyKey ''Beta'' = ''Beta''" "keywordKey ''sql'' = ''sql''"
  by (simp_all add: companyKey_def keywordKey_def title_defs trim_def is_space_def)


section \<open>Properties of the upload\<close>

text \<open>
  C2. An upload whose file is absent, empty, larger than 10 MiB or does not begin with
  \<open>%PDF\<close> leaves the blob store and every collection as they were: no blob is written
  and no Resume record is created. Its response is the 400 of the validation step,
  provided the abort of the still empty transaction does not itself throw (then the
  handler answers 500, still without side effects).
\<close>

theorem upload_rejected_file:
  assumes "rejectedFile (u_file req)"
  shows "sameStores w (snd (uploadResume env req w))
         \<and> (faults env OpAbortTransaction = None
              \<longrightarrow> map_option status (fst (uploadResume env req w)) = Some 400)"
proof -
  obtain msg where
    "upload_try env req (case u_file req of None \<Rightarrow> ''Unnamed file''
                         | Some fl \<Rightarrow> js_or (originalname fl) ''Unnamed file'')
       startTransaction w = reject (faults env) startTransaction msg w"
    using upload_try_rejected[OF assms] by blast
  then show ?thesis
    by (simp add: uploadResume_def Let_def reject_def abortTransaction_def attempt_def
        startTransaction_def upload_catch_def inTransaction_def sameStores_def json_def
        split: option.splits)
qed

theorem upload_rejected_file_witness:
  "rejectedFile (u_file gifRequest)
   \<and> sameStores emptyWorld (snd (uploadResume plainEnv gifRequest emptyWorld))
   \<and> map_option status (fst (uploadResume plainEnv gifRequest emptyWorld)) = Some 400"
proof -
  have 1: "rejectedFile (u_file gifRequest)"
    by (simp add: rejectedFile_def gifRequest_def)
  have 2: "faults plainEnv OpAbortTransaction = None"
    by (simp add: plainEnv_def noFaults_def)
  show ?thesis using upload_rejected_file[OF 1, of emptyWorld plainEnv] 1 2 by simp
qed




text \<open>
  C3, as stated: the form names the companies \<open>Acme,Beta\<close> and the lookup of \<open>Beta\<close>
  fails. \<open>Acme\<close> is resolved before it (its Company record, id 1, is created and
  stays), yet the Resume record that is created references no company at all; the
  keyword, resolved in its own stage, is referenced.
\<close>

theorem upload_partial_tags_counterexample:
  "map_option status (fst (uploadResume lookupFails tagRequest emptyWorld)) = Some 201
   \<and> oplog (snd (uploadResume lookupFails tagRequest emptyWorld))
       = [OpBlobWrite, OpCompanyFindOne ''Acme'', OpCompanyCreate ''Acme'',
          OpCompanyFindOne ''Beta'', OpKeywordFindOne ''sql'', OpKeywordCreate ''sql'',
          OpResumeCreate, OpCommitTransaction]
   \<and> company_docs (snd (uploadResume lookupFails tagRequest emptyWorld))
       = [\<lparr>tag_id = 1, tag_name = ''Acme''\<rparr>]
   \<and> map r_companies (resume_docs (snd (uploadResume lookupFails tagRequest emptyWorld))) = [[]]
   \<and> map r_keywords (resume_docs (snd (uploadResume lookupFails tagRequest emptyWorld))) = [[2]]"
  by (simp add: tag_failure_run json_def)

text \<open>
  C3, amended. An upload of a file that passes the validation, whose blob write, record
  creation and commit do not fail: the response is 201 and one Resume record is created.
  The resolver is called once for the list of companies and once for the list of
  keywords, and each list is referenced as a whole or not at all.

  If the names \<open>cpre\<close> of the company list resolve and the name \<open>cn\<close> that follows them
  fails, the record references no company at all, although the Company records of the
  names \<open>cpre\<close> are in the store afterwards. If every name of the company list resolves,
  the record references one Company record for each name, in the order of the list.
  The same holds of the keywords, whatever happened to the companies.
\<close>

theorem upload_tag_failure_drops_list:
  assumes "u_file req = Some fl" and "acceptedFile fl b"
    and "faults env OpBlobWrite = None" and "faults env OpResumeCreate = None"
    and "faults env OpCommitTransaction = None"
  shows "map_option status (fst (uploadResume env req w)) = Some 201
     \<and> (\<exists>r. resume_docs (snd (uploadResume env req w)) = resume_docs w @ [r]
          \<and> (companyNames env req fl b = cpre @ cn # cpost
               \<and> (\<forall>m \<in> set cpre. companyResolves (faults env) m)
               \<and> companyFails (faults env)
                    (map tag_name (company_docs w) @ map companyKey cpre) cn
              \<longrightarrow> r_companies r = []
                  \<and> companyKey ` set cpre
                      \<subseteq> tag_name ` set (company_docs (snd (uploadResume env req w))))
          \<and> ((\<forall>m \<in> set (companyNames env req fl b). companyResolves (faults env) m)
              \<longrightarrow> refersTo (r_companies r) (company_docs (snd (uploadResume env req w)))
                    (map companyKey (companyNames env req fl b)))
          \<and> (keywordNames env req fl b = kpre @ kn # kpost
               \<and> (\<forall>m \<in> set kpre. keywordResolves (faults env) m)
               \<and> keywordFails (faults env)
                    (map tag_name (keyword_docs w) @ map keywordKey kpre) kn
              \<longrightarrow> r_keywords r = []
                  \<and> keywordKey ` set kpre
                      \<subseteq> tag_name ` set (keyword_docs (snd (uploadResume env req w))))
          \<and> ((\<forall>m \<in> set (keywordNames env req fl b). keywordResolves (faults env) m)
              \<longrightarrow> refersTo (r_keywords r) (keyword_docs (snd (uploadResume env req w)))
                    (map keywordKey (keywordNames env req fl b))))"
proof -
  let ?w1 = "afterUpload env fl b w"
  obtain cids w2 where ac: "associate_companies (faults env) (companyNames env req fl b) ?w1
      = (cids, w2)"
    by (rule prod.exhaust)
  obtain kids w3 where ak: "associate_keywords (faults env) (keywordNames env req fl b) w2
      = (kids, w3)"
    by (rule prod.exhaust)
  note run = uploadResume_success[OF assms(3,4,5,1,2) ac ak]
  let ?r = "newDoc env req (parsedOf env fl b) (filenameWithoutExt (now env) fl) (nextId w3)
              (nextId w) cids kids"
  have cd: "company_docs (snd (uploadResume env req w)) = company_docs w2"
    using associate_keywords_result(3)[OF ak] by (simp add: run)
  have kd: "keyword_docs (snd (uploadResume env req w)) = keyword_docs w3"
    by (simp add: run)
  have k2: "keyword_docs w2 = keyword_docs w"
    using associate_companies_result(3)[OF ac] by (simp add: afterUpload_docs[OF assms(3)])
  have c1: "company_docs ?w1 = company_docs w"
    by (simp add: afterUpload_docs[OF assms(3)])
  have s: "map_option status (fst (uploadResume env req w)) = Some 201"
    by (simp add: run json_def)
  have d: "resume_docs (snd (uploadResume env req w)) = resume_docs w @ [?r]"
    by (simp add: run)
  have cf: "companyNames env req fl b = cpre @ cn # cpost
               \<and> (\<forall>m \<in> set cpre. companyResolves (faults env) m)
               \<and> companyFails (faults env)
                    (map tag_name (company_docs w) @ map companyKey cpre) cn
              \<longrightarrow> r_companies ?r = []
                  \<and> companyKey ` set cpre
                      \<subseteq> tag_name ` set (company_docs (snd (uploadResume env req w)))"
  proof (rule impI)
    assume h: "companyNames env req fl b = cpre @ cn # cpost
          \<and> (\<forall>m \<in> set cpre. companyResolves (faults env) m)
          \<and> companyFails (faults env) (map tag_name (company_docs w) @ map companyKey cpre) cn"
    show "r_companies ?r = []
            \<and> companyKey ` set cpre
                \<subseteq> tag_name ` set (company_docs (snd (uploadResume env req w)))"
      using associate_companies_failed[of cpre "faults env" ?w1 cn cpost] h ac
      by (simp add: c1 cd newDoc_def)
  qed
  have co: "(\<forall>m \<in> set (companyNames env req fl b). companyResolves (faults env) m)
              \<longrightarrow> refersTo (r_companies ?r) (company_docs (snd (uploadResume env req w)))
                    (map companyKey (companyNames env req fl b))"
  proof (rule impI)
    assume h: "\<forall>m \<in> set (companyNames env req fl b). companyResolves (faults env) m"
    show "refersTo (r_companies ?r) (company_docs (snd (uploadResume env req w)))
              (map companyKey (companyNames env req fl b))"
      using associate_companies_resolved[OF h, of ?w1] ac by (simp add: cd newDoc_def)
  qed
  have kf: "keywordNames env req fl b = kpre @ kn # kpost
               \<and> (\<forall>m \<in> set kpre. keywordResolves (faults env) m)
               \<and> keywordFails (faults env)
                    (map tag_name (keyword_docs w) @ map keywordKey kpre) kn
              \<longrightarrow> r_keywords ?r = []
                  \<and> keywordKey ` set kpre
                      \<subseteq> tag_name ` set (keyword_docs (snd (uploadResume env req w)))"
  proof (rule impI)
    assume h: "keywordNames env req fl b = kpre @ kn # kpost
          \<and> (\<forall>m \<in> set kpre. keywordResolves (faults env) m)
          \<and> keywordFails (faults env) (map tag_name (keyword_docs w) @ map keywordKey kpre) kn"
    show "r_keywords ?r = []
            \<and> keywordKey ` set kpre
                \<subseteq> tag_name ` set (keyword_docs (snd (uploadResume env req w)))"
      using associate_keywords_failed[of kpre "faults env" w2 kn kpost] h ak
      by (simp add: k2 kd newDoc_def)
  qed
  have ko: "(\<forall>m \<in> set (keywordNames env req fl b). keywordResolves (faults env) m)
              \<longrightarrow> refersTo (r_keywords ?r) (keyword_docs (snd (uploadResume env req w)))
                    (map keywordKey (keywordNames env req fl b))"
  proof (rule impI)
    assume h: "\<forall>m \<in> set (keywordNames env req fl b). keywordResolves (faults env) m"
    show "refersTo (r_keywords ?r) (keyword_docs (snd (uploadResume env req w)))
              (map keywordKey (keywordNames env req fl b))"
      using associate_keywords_resolved[OF h, of w2] ak by (simp add: kd newDoc_def)
  qed
  show ?thesis
    using s d cf co kf ko by (intro conjI exI[of _ ?r])
qed

theorem upload_tag_failure_drops_list_witness:
  "companyFails (faults lookupFails)
     (map tag_name (company_docs emptyWorld) @ map companyKey [''Acme'']) ''Beta''
   \<and> map_option status (fst (uploadResume lookupFails tagRequest emptyWorld)) = Some 201
   \<and> map r_companies (resume_docs (snd (uploadResume lookupFails tagRequest emptyWorld))) = [[]]
   \<and> ''Acme'' \<in> tag_name ` set (company_docs (snd (uploadResume lookupFails tagRequest emptyWorld)))
   \<and> map (\<lambda>r. refersTo (r_keywords r)
                 (keyword_docs (snd (uploadResume lookupFails tagRequest emptyWorld))) [''sql''])
       (resume_docs (snd (uploadResume lookupFails tagRequest emptyWorld))) = [True]
   \<and> keywordFails (faults keywordCreateFails)
       (map tag_name (keyword_docs emptyWorld) @ map keywordKey []) ''sql''
   \<and> map_option status (fst (uploadResume keywordCreateFails tagRequest emptyWorld)) = Some 201
   \<and> map r_keywords (resume_docs (snd (uploadResume keywordCreateFails tagRequest emptyWorld)))
       = [[]]
   \<and> map (\<lambda>r. refersTo (r_companies r)
                 (company_docs (snd (uploadResume keywordCreateFails tagRequest emptyWorld)))
                 [''Acme'', ''Beta''])
       (resume_docs (snd (uploadResume keywordCreateFails tagRequest emptyWorld))) = [True]"
proof -
  let ?A = "uploadResume lookupFails tagRequest emptyWorld"
  let ?B = "uploadResume keywordCreateFails tagRequest emptyWorld"
  have fl: "u_file tagRequest = Some pdfFile" by (simp add: tagRequest_def)
  have okA: "faults lookupFails OpBlobWrite = None" "faults lookupFails OpResumeCreate = None"
    "faults lookupFails OpCommitTransaction = None"
    by (simp_all add: lookupFails_def plainEnv_def noFaults_def)
  have okB: "faults keywordCreateFails OpBlobWrite = None"
    "faults keywordCreateFails OpResumeCreate = None"
    "faults keywordCreateFails OpCommitTransaction = None"
    by (simp_all add: keywordCreateFails_def plainEnv_def noFaults_def)
  have empty: "resume_docs emptyWorld = []" "company_docs emptyWorld = []"
    "keyword_docs emptyWorld = []"
    by (simp_all add: emptyWorld_def)
  have cfail: "companyFails (faults lookupFails)
     (map tag_name (company_docs emptyWorld) @ map companyKey [''Acme'']) ''Beta''"
    by (simp add: companyFails_def sample_keys lookupFails_def plainEnv_def noFaults_def)
  have cpre: "\<forall>m \<in> set [''Acme'']. companyResolves (faults lookupFails) m"
    by (simp add: companyResolves_def sample_keys lookupFails_def plainEnv_def noFaults_def)
  have kall: "\<forall>m \<in> set (keywordNames lookupFails tagRequest pdfFile ''%PDF-1.4'').
                keywordResolves (faults lookupFails) m"
    by (simp add: tagRequest_names keywordResolves_def sample_keys lookupFails_def plainEnv_def
        noFaults_def)
  have kfail: "keywordFails (faults keywordCreateFails)
       (map tag_name (keyword_docs emptyWorld) @ map keywordKey []) ''sql''"
    by (simp add: keywordFails_def sample_keys keywordCreateFails_def plainEnv_def noFaults_def
        empty)
  have kpre: "\<forall>m \<in> set []. keywordResolves (faults keywordCreateFails) m" by simp
  have call: "\<forall>m \<in> set (companyNames keywordCreateFails tagRequest pdfFile ''%PDF-1.4'').
                companyResolves (faults keywordCreateFails) m"
    by (simp add: tagRequest_names companyResolves_def sample_keys keywordCreateFails_def
        plainEnv_def noFaults_def)
  note TA = upload_tag_failure_drops_list[OF fl accepted_pdfFile okA,
        of emptyWorld "[''Acme'']" "''Beta''" "[]" "[]" "''sql''" "[]"]
  note TB = upload_tag_failure_drops_list[OF fl accepted_pdfFile okB,
        of emptyWorld "[''Acme'']" "''Beta''" "[]" "[]" "''sql''" "[]"]
  have sA: "map_option status (fst ?A) = Some 201" using TA by (rule conjunct1)
  have sB: "map_option status (fst ?B) = Some 201" using TB by (rule conjunct1)
  have A: "map r_companies (resume_docs (snd ?A)) = [[]]
     \<and> companyKey ` set [''Acme''] \<subseteq> tag_name ` set (company_docs (snd ?A))
     \<and> map (\<lambda>r. refersTo (r_keywords r) (keyword_docs (snd ?A))
                   (map keywordKey (keywordNames lookupFails tagRequest pdfFile ''%PDF-1.4'')))
         (resume_docs (snd ?A)) = [True]"
  proof -
    from TA obtain r where
      d: "resume_docs (snd ?A) = resume_docs emptyWorld @ [r]"
      and i1: "companyNames lookupFails tagRequest pdfFile ''%PDF-1.4'' = [''Acme''] @ ''Beta'' # []
               \<and> (\<forall>m \<in> set [''Acme'']. companyResolves (faults lookupFails) m)
               \<and> companyFails (faults lookupFails)
                    (map tag_name (company_docs emptyWorld) @ map companyKey [''Acme'']) ''Beta''
              \<longrightarrow> r_companies r = []
                  \<and> companyKey ` set [''Acme''] \<subseteq> tag_name ` set (company_docs (snd ?A))"
      and i4: "(\<forall>m \<in> set (keywordNames lookupFails tagRequest pdfFile ''%PDF-1.4'').
                  keywordResolves (faults lookupFails) m)
              \<longrightarrow> refersTo (r_keywords r) (keyword_docs (snd ?A))
                    (map keywordKey (keywordNames lookupFails tagRequest pdfFile ''%PDF-1.4''))"
      by (elim conjE exE)
    have c: "r_companies r = []
             \<and> companyKey ` set [''Acme''] \<subseteq> tag_name ` set (company_docs (snd ?A))"
      using i1 tagRequest_names(1)[of lookupFails] cpre cfail by (intro mp[OF i1] conjI)
    have k: "refersTo (r_keywords r) (keyword_docs (snd ?A))
                    (map keywordKey (keywordNames lookupFails tagRequest pdfFile ''%PDF-1.4''))"
      using kall by (rule mp[OF i4])
    show ?thesis using c k by (simp add: d empty)
  qed
  have B: "map r_keywords (resume_docs (snd ?B)) = [[]]
     \<and> map (\<lambda>r. refersTo (r_companies r) (company_docs (snd ?B))
                   (map companyKey (companyNames keywordCreateFails tagRequest pdfFile ''%PDF-1.4'')))
         (resume_docs (snd ?B)) = [True]"
  proof -
    from TB obtain q where
      d: "resume_docs (snd ?B) = resume_docs emptyWorld @ [q]"
      and i2: "(\<forall>m \<in> set (companyNames keywordCreateFails tagRequest pdfFile ''%PDF-1.4'').
                  companyResolves (faults keywordCreateFails) m)
              \<longrightarrow> refersTo (r_companies q) (company_docs (snd ?B))
                    (map companyKey (companyNames keywordCreateFails tagRequest pdfFile ''%PDF-1.4''))"
      and i3: "keywordNames keywordCreateFails tagRequest pdfFile ''%PDF-1.4'' = [] @ ''sql'' # []
               \<and> (\<forall>m \<in> set []. keywordResolves (faults keywordCreateFails) m)
               \<and> keywordFails (faults keywordCreateFails)
                    (map tag_name (keyword_docs emptyWorld) @ map keywordKey []) ''sql''
              \<longrightarrow> r_keywords q = []
                  \<and> keywordKey ` set [] \<subseteq> tag_name ` set (keyword_docs (snd ?B))"
      by (elim conjE exE)
    have k: "r_keywords q = []
             \<and> keywordKey ` set [] \<subseteq> tag_name ` set (keyword_docs (snd ?B))"
      using tagRequest_names(2)[of keywordCreateFails] kpre kfail by (intro mp[OF i3] conjI)
    have c: "refersTo (r_companies q) (company_docs (snd ?B))
                    (map companyKey (companyNames keywordCreateFails tagRequest pdfFile ''%PDF-1.4''))"
      using call by (rule mp[OF i2])
    show ?thesis using c k by (simp add: d empty)
  qed
  have names: "map keywordKey (keywordNames lookupFails tagRequest pdfFile ''%PDF-1.4'') = [''sql'']"
    "map companyKey (companyNames keywordCreateFails tagRequest pdfFile ''%PDF-1.4'')
       = [''Acme'', ''Beta'']"
    "companyKey ` set [''Acme''] = {''Acme''}"
    by (simp_all add: tagRequest_names sample_keys)
  have A': "map r_companies (resume_docs (snd ?A)) = [[]]
     \<and> ''Acme'' \<in> tag_name ` set (company_docs (snd ?A))
     \<and> map (\<lambda>r. refersTo (r_keywords r) (keyword_docs (snd ?A)) [''sql''])
         (resume_docs (snd ?A)) = [True]"
    using A unfolding names by simp
  have B': "map r_keywords (resume_docs (snd ?B)) = [[]]
     \<and> map (\<lambda>r. refersTo (r_companies r) (company_docs (snd ?B)) [''Acme'', ''Beta''])
         (resume_docs (snd ?B)) = [True]"
    using B unfolding names .
  show ?thesis
    using cfail sA A' kfail sB B' by (intro conjI) (elim conjE, assumption)+
qed






section \<open>Retrieval and search\<close>

lemma find_active_unique:
  assumes "distinct (map r_id docs)" "r \<in> set docs" "r_isActive r"
  shows "find (\<lambda>x. r_id x = r_id r \<and> r_isActive x) docs = Some r"
  using assms by (induction docs) (auto simp: image_iff)

lemma find_inactive_unique:
  assumes "distinct (map r_id docs)" "r \<in> set docs" "\<not> r_isActive r"
  shows "find (\<lambda>x. r_id x = r_id r \<and> r_isActive x) docs = None"
proof -
  have "inj_on r_id (set docs)" using assms(1) by (simp add: distinct_map)
  then have "\<forall>x \<in> set docs. r_id x = r_id r \<longrightarrow> x = r"
    using assms(2) by (auto dest: inj_onD)
  then show ?thesis using assms(3) by (auto simp: find_None_iff)
qed

lemma find_none_or_no_file:
  assumes "\<not> (\<exists>r \<in> set docs. r_id r = i \<and> r_isActive r \<and> r_fileId r \<noteq> None)"
  shows "case find (\<lambda>x. r_id x = i \<and> r_isActive x) docs of None \<Rightarrow> True
         | Some r \<Rightarrow> r_fileId r = None"
  using assms by (induction docs) auto

lemma file_invalid_id:
  assumes "parseId env idParam = None"
  shows "fst (getResumeFile env idParam w) = json 400 (Message True ''Invalid resume ID.'')"
  using assms by (simp add: getResumeFile_def)

lemma file_metadata_404:
  assumes "parseId env idParam = Some i" "faults env (OpResumeFindOne i) = None"
    and "\<not> (\<exists>r \<in> set (resume_docs w). r_id r = i \<and> r_isActive r \<and> r_fileId r \<noteq> None)"
  shows "fst (getResumeFile env idParam w) = json 404 (Message True ''Resume or file not found.'')"
proof (cases "find (\<lambda>x. r_id x = i \<and> r_isActive x) (resume_docs w)")
  case None
  then show ?thesis
    using assms(1,2) by (simp add: getResumeFile_def Resume_findOne_def attempt_def)
next
  case (Some r')
  then have "r_fileId r' = None"
    using find_none_or_no_file[OF assms(3)] by simp
  then show ?thesis
    using assms(1,2) Some by (simp add: getResumeFile_def Resume_findOne_def attempt_def)
qed

lemma file_orphan_404:
  assumes "parseId env idParam = Some i" "faults env (OpResumeFindOne i) = None"
    and "distinct (map r_id (resume_docs w))" "r \<in> set (resume_docs w)" "r_id r = i"
    and "r_isActive r" "r_fileId r = Some fileId"
    and "faults env (OpBlobRead fileId) = None" "map_of (blobs w) fileId = None"
  shows "status (fst (getResumeFile env idParam w)) = 404
         \<and> payload (fst (getResumeFile env idParam w)) = NoBody"
proof -
  have f: "find (\<lambda>x. r_id x = i \<and> r_isActive x) (resume_docs w) = Some r"
    using find_active_unique[OF assms(3,4,6)] assms(5) by simp
  show ?thesis
    using assms(1,2,7,8,9) f
    by (simp add: getResumeFile_def Resume_findOne_def attempt_def streamFileToResponse_def
        download_def fileNotFound_def)
qed

text \<open>
  C8. File delivery: a malformed id is answered 400; a well-formed id for which no
  active Resume with a blob id exists is answered with the 404 of the metadata lookup
  (a JSON error); and when the active Resume exists but its blob is not in the bucket,
  the stream ends the response with 404 and no body. The lookups themselves are taken not
  to fail, and record ids to be unique.
\<close>

theorem file_delivery_errors:
  "(parseId env idParam = None
      \<longrightarrow> fst (getResumeFile env idParam w) = json 400 (Message True ''Invalid resume ID.''))
   \<and> (parseId env idParam = Some i \<and> faults env (OpResumeFindOne i) = None
        \<and> \<not> (\<exists>r \<in> set (resume_docs w). r_id r = i \<and> r_isActive r \<and> r_fileId r \<noteq> None)
      \<longrightarrow> fst (getResumeFile env idParam w)
            = json 404 (Message True ''Resume or file not found.''))
   \<and> (parseId env idParam = Some i \<and> faults env (OpResumeFindOne i) = None
        \<and> distinct (map r_id (resume_docs w))
        \<and> r \<in> set (resume_docs w) \<and> r_id r = i \<and> r_isActive r \<and> r_fileId r = Some fileId
        \<and> faults env (OpBlobRead fileId) = None \<and> map_of (blobs w) fileId = None
      \<longrightarrow> status (fst (getResumeFile env idParam w)) = 404
          \<and> payload (fst (getResumeFile env idParam w)) = NoBody)"
proof -
  have 1: "parseId env idParam = None
      \<longrightarrow> fst (getResumeFile env idParam w) = json 400 (Message True ''Invalid resume ID.'')"
    using file_invalid_id by (intro impI)
  have 2: "parseId env idParam = Some i \<and> faults env (OpResumeFindOne i) = None
        \<and> \<not> (\<exists>r \<in> set (resume_docs w). r_id r = i \<and> r_isActive r \<and> r_fileId r \<noteq> None)
      \<longrightarrow> fst (getResumeFile env idParam w)
            = json 404 (Message True ''Resume or file not found.'')"
  proof (intro impI, elim conjE)
    assume "parseId env idParam = Some i" "faults env (OpResumeFindOne i) = None"
      "\<not> (\<exists>r \<in> set (resume_docs w). r_id r = i \<and> r_isActive r \<and> r_fileId r \<noteq> None)"
    then show "fst (getResumeFile env idParam w)
            = json 404 (Message True ''Resume or file not found.'')"
      by (rule file_metadata_404)
  qed
  have 3: "parseId env idParam = Some i \<and> faults env (OpResumeFindOne i) = None
        \<and> distinct (map r_id (resume_docs w))
        \<and> r \<in> set (resume_docs w) \<and> r_id r = i \<and> r_isActive r \<and> r_fileId r = Some fileId
        \<and> faults env (OpBlobRead fileId) = None \<and> map_of (blobs w) fileId = None
      \<longrightarrow> status (fst (getResumeFile env idParam w)) = 404
          \<and> payload (fst (getResumeFile env idParam w)) = NoBody"
  proof (intro impI, elim conjE)
    assume "parseId env idParam = Some i" "faults env (OpResumeFindOne i) = None"
      "distinct (map r_id (resume_docs w))" "r \<in> set (resume_docs w)" "r_id r = i"
      "r_isActive r" "r_fileId r = Some fileId"
      "faults env (OpBlobRead fileId) = None" "map_of (blobs w) fileId = None"
    then show "status (fst (getResumeFile env idParam w)) = 404
          \<and> payload (fst (getResumeFile env idParam w)) = NoBody"
      by (rule file_orphan_404)
  qed
  show ?thesis using 1 2 3 by (intro conjI)
qed

theorem file_delivery_errors_witness:
  "fst (getResumeFile plainEnv ''zz'' emptyWorld) = json 400 (Message True ''Invalid resume ID.'')
   \<and> fst (getResumeFile plainEnv ''1'' emptyWorld)
       = json 404 (Message True ''Resume or file not found.'')
   \<and> status (fst (getResumeFile plainEnv ''1'' orphanWorld)) = 404
   \<and> payload (fst (getResumeFile plainEnv ''1'' orphanWorld)) = NoBody"
proof -
  have a: "parseId plainEnv ''zz'' = None" by (simp add: plainEnv_def)
  have b: "parseId plainEnv ''1'' = Some 1 \<and> faults plainEnv (OpResumeFindOne 1) = None
      \<and> \<not> (\<exists>r \<in> set (resume_docs emptyWorld). r_id r = 1 \<and> r_isActive r \<and> r_fileId r \<noteq> None)"
    by (simp add: plainEnv_def noFaults_def emptyWorld_def)
  have c: "parseId plainEnv ''1'' = Some 1 \<and> faults plainEnv (OpResumeFindOne 1) = None
      \<and> distinct (map r_id (resume_docs orphanWorld))
      \<and> storedResume \<in> set (resume_docs orphanWorld) \<and> r_id storedResume = 1
      \<and> r_isActive storedResume \<and> r_fileId storedResume = Some 0
      \<and> faults plainEnv (OpBlobRead 0) = None \<and> map_of (blobs orphanWorld) 0 = None"
    by (simp add: plainEnv_def noFaults_def orphanWorld_def emptyWorld_def storedResume_def)
  have 1: "fst (getResumeFile plainEnv ''zz'' emptyWorld) = json 400 (Message True ''Invalid resume ID.'')"
    using file_delivery_errors[of plainEnv "''zz''" emptyWorld] a by simp
  have 2: "fst (getResumeFile plainEnv ''1'' emptyWorld)
       = json 404 (Message True ''Resume or file not found.'')"
    using file_delivery_errors[of plainEnv "''1''" emptyWorld 1] b by blast
  have 3: "status (fst (getResumeFile plainEnv ''1'' orphanWorld)) = 404
   \<and> payload (fst (getResumeFile plainEnv ''1'' orphanWorld)) = NoBody"
    using file_delivery_errors[of plainEnv "''1''" orphanWorld 1 storedResume 0] c by blast
  show ?thesis using 1 2 3 by (intro conjI) simp_all
qed

lemma baseQuery_active: "baseQuery env ps = Inr q \<Longrightarrow> rq_isActive q"
  by (auto simp: baseQuery_def split: sum.splits)

lemma tag_filter_docs:
  "resume_docs (snd (companyFilter env c w)) = resume_docs w"
  "resume_docs (snd (keywordFilter env k w)) = resume_docs w"
  by (auto simp: companyFilter_def keywordFilter_def Company_find_def Keyword_find_def
      attempt_def Let_def split: option.splits)

lemma widen_active:
  assumes "widen env query rq w = (Inr q, w')"
  shows "rq_isActive q = rq_isActive rq"
  using assms
  by (auto simp: widen_def Company_find_def Keyword_find_def attempt_def Let_def
      split: option.splits if_splits)

lemma widen_docs: "resume_docs (snd (widen env query rq w)) = resume_docs w"
  by (auto simp: widen_def Company_find_def Keyword_find_def attempt_def Let_def
      split: option.splits)

lemma Resume_find_active:
  assumes "Resume_find f env q w = (Inr rs, w')" "rq_isActive q"
  shows "set rs \<subseteq> {r \<in> set (resume_docs w). r_isActive r}"
  using assms
  by (auto simp: Resume_find_def attempt_def matches_def split: option.splits)

lemma search_try_active:
  assumes "search_try env baseUrl ps w = (Inr res, w')"
  shows "set (listed res) \<subseteq> r_id ` {r \<in> set (resume_docs w). r_isActive r}"
proof (cases "baseQuery env ps")
  case (Inl e)
  then show ?thesis using assms by (simp add: search_try_def)
next
  case (Inr q0)
  obtain cf w1 where c: "companyFilter env (sp_company ps) w = (cf, w1)" by (rule prod.exhaust)
  obtain kf w2 where k: "keywordFilter env (sp_keyword ps) w1 = (kf, w2)" by (rule prod.exhaust)
  have d1: "resume_docs w1 = resume_docs w" using tag_filter_docs(1)[of env "sp_company ps" w] c by simp
  have d2: "resume_docs w2 = resume_docs w" using tag_filter_docs(2)[of env "sp_keyword ps" w1] k d1 by simp
  show ?thesis
  proof (cases cf)
    case (Throws e)
    then show ?thesis using assms Inr c by (simp add: search_try_def)
  next
    case NoMatch
    then show ?thesis using assms Inr c by (auto simp: search_try_def emptyResult_def listed_def json_def)
  next
    case (Ids ci)
    show ?thesis
    proof (cases kf)
      case (Throws e)
      then show ?thesis using assms Inr c k Ids by (simp add: search_try_def)
    next
      case NoMatch
      then show ?thesis using assms Inr c k Ids
        by (auto simp: search_try_def emptyResult_def listed_def json_def)
    next
      case (Ids ki)
      obtain r3 w3 where wd: "widen env (sp_query ps) (q0\<lparr>rq_companies := ci, rq_keywords := ki\<rparr>) w2 = (r3, w3)"
        by (rule prod.exhaust)
      have d3: "resume_docs w3 = resume_docs w"
        using widen_docs[of env "sp_query ps" "q0\<lparr>rq_companies := ci, rq_keywords := ki\<rparr>" w2] wd d2 by simp
      show ?thesis
      proof (cases r3)
        case (Inl e)
        then show ?thesis using assms \<open>baseQuery env ps = Inr q0\<close> c k \<open>cf = Ids ci\<close> Ids wd
          by (simp add: search_try_def)
      next
        case (Inr q)
        have act: "rq_isActive q"
          using widen_active[of env "sp_query ps" _ w2 q w3] wd Inr baseQuery_active[OF \<open>baseQuery env ps = Inr q0\<close>]
          by simp
        obtain r4 w4 where rf: "Resume_find (faults env) env q w3 = (r4, w4)" by (rule prod.exhaust)
        show ?thesis
        proof (cases r4)
          case (Inl e)
          then show ?thesis using assms \<open>baseQuery env ps = Inr q0\<close> c k \<open>cf = Ids ci\<close> Ids wd Inr rf
            by (simp add: search_try_def)
        next
          case (Inr rs)
          have sub: "set rs \<subseteq> {r \<in> set (resume_docs w). r_isActive r}"
            using Resume_find_active[of "faults env" env q w3 rs w4] rf Inr act d3 by simp
          have "res = json 200 (SearchResult (length rs) (map (formatSummary baseUrl w4) rs))"
            using assms \<open>baseQuery env ps = Inr q0\<close> c k \<open>cf = Ids ci\<close> Ids wd \<open>r3 = Inr q\<close> rf Inr
            by (auto simp: search_try_def)
          then have "listed res = map r_id rs"
            by (simp add: listed_def json_def formatSummary_def comp_def)
          then show ?thesis using sub by auto
        qed
      qed
    qed
  qed
qed

lemma searchResumes_active:
  "set (listed (fst (searchResumes env baseUrl ps w)))
     \<subseteq> r_id ` {r \<in> set (resume_docs w). r_isActive r}"
proof -
  obtain r1 w1 where s: "search_try env baseUrl ps w = (r1, w1)" by (rule prod.exhaust)
  show ?thesis
  proof (cases r1)
    case (Inl e)
    then show ?thesis using s by (simp add: searchResumes_def listed_def json_def)
  next
    case (Inr res)
    then show ?thesis using s search_try_active[of env baseUrl ps w res w1]
      by (simp add: searchResumes_def)
  qed
qed

lemma detail_inactive:
  assumes "parseId env idParam = Some i"
    and "find (\<lambda>x. r_id x = i \<and> r_isActive x) (resume_docs w) = None"
  shows "status (fst (getResumeById env baseUrl idParam w))
           = (if faults env (OpResumeFindOne i) = None then 404 else 500)"
    "status (fst (getResumeFile env idParam w))
           = (if faults env (OpResumeFindOne i) = None then 404 else 500)"
  using assms
  by (auto simp: getResumeById_def getResumeFile_def Resume_findOne_def attempt_def json_def
      split: option.splits)

text \<open>
  C5. A Resume record with \<open>isActive = false\<close> (record ids being unique) is in the
  result of no search, whatever the parameters; its detail and its file are answered 404
  (500 if the lookup itself fails), whatever the blob store holds.
\<close>

theorem inactive_never_served:
  assumes "r \<in> set (resume_docs w)" and "\<not> r_isActive r"
    and "distinct (map r_id (resume_docs w))"
    and "parseId env idParam = Some (r_id r)"
  shows "r_id r \<notin> set (listed (fst (searchResumes env baseUrl ps w)))
     \<and> status (fst (getResumeById env baseUrl idParam w))
         = (if faults env (OpResumeFindOne (r_id r)) = None then 404 else 500)
     \<and> status (fst (getResumeFile env idParam w))
         = (if faults env (OpResumeFindOne (r_id r)) = None then 404 else 500)"
proof -
  have inj: "inj_on r_id (set (resume_docs w))" using assms(3) by (simp add: distinct_map)
  have "r_id r \<notin> r_id ` {x \<in> set (resume_docs w). r_isActive x}"
  proof
    assume "r_id r \<in> r_id ` {x \<in> set (resume_docs w). r_isActive x}"
    then obtain x where x: "x \<in> set (resume_docs w)" "r_isActive x" "r_id x = r_id r" by auto
    then have "x = r" using inj assms(1) by (auto dest: inj_onD)
    then show False using x(2) assms(2) by simp
  qed
  then have 1: "r_id r \<notin> set (listed (fst (searchResumes env baseUrl ps w)))"
    using searchResumes_active[of env baseUrl ps w] by blast
  note f = find_inactive_unique[OF assms(3,1,2)]
  show ?thesis
    using 1 detail_inactive[OF assms(4) f] by (intro conjI)
qed

theorem inactive_never_served_witness:
  "map_of (blobs tombstoneWorld) 0 = Some storedBlob
   \<and> 1 \<notin> set (listed (fst (searchResumes plainEnv ''http://host'' noParams tombstoneWorld)))
   \<and> status (fst (getResumeById plainEnv ''http://host'' ''1'' tombstoneWorld)) = 404
   \<and> status (fst (getResumeFile plainEnv ''1'' tombstoneWorld)) = 404"
proof -
  have 1: "tombstone \<in> set (resume_docs tombstoneWorld)"
    by (simp add: tombstone_def tombstoneWorld_def emptyWorld_def)
  have 2: "\<not> r_isActive tombstone" by (simp add: tombstone_def)
  have 3: "distinct (map r_id (resume_docs tombstoneWorld))"
    by (simp add: tombstoneWorld_def emptyWorld_def)
  have 4: "parseId plainEnv ''1'' = Some (r_id tombstone)"
    by (simp add: plainEnv_def tombstone_def storedResume_def)
  have 5: "r_id tombstone = 1" by (simp add: tombstone_def storedResume_def)
  have 6: "faults plainEnv (OpResumeFindOne 1) = None" by (simp add: plainEnv_def noFaults_def)
  have 7: "map_of (blobs tombstoneWorld) 0 = Some storedBlob"
    by (simp add: tombstoneWorld_def emptyWorld_def)
  show ?thesis
    using inactive_never_served[OF 1 2 3 4, of "''http://host''" noParams] 5 6 7
    by simp
qed

section \<open>Update\<close>

text \<open>
  C9. The companies of a Resume are to stay free of duplicates after an update. The
  update resolves the list as it is given: for \<open>Acme,Acme\<close> the resolver returns the same
  Company twice, and the record is saved with its id twice.
\<close>

theorem update_repeated_name:
  "map_option status (fst (updateResume plainEnv ''http://host'' repeatUpdate oneResume)) = Some 200
   \<and> company_docs (snd (updateResume plainEnv ''http://host'' repeatUpdate oneResume))
       = [\<lparr>tag_id = 2, tag_name = ''Acme''\<rparr>]
   \<and> map r_companies (resume_docs (snd (updateResume plainEnv ''http://host'' repeatUpdate oneResume)))
       = [[2, 2]]"
  by (simp add: update_defs store_defs string_defs title_defs sample_defs world_defs Let_def
      json_def)

end
